theory Spec2Isabelle
  imports Complex_Main "HOL-Library.Word" "HOL-Library.AList"
begin

section \<open>JavaScript values\<close>

text \<open>
  A JavaScript \<open>number\<close> is a finite double (kept as the real it denotes), an infinity
  or \<open>NaN\<close>; the sign of a zero is not kept. In the carbon-credit code every arithmetic
  result and every numeric literal passes through \<open>fl\<close>, the engine's rounding of an
  exact real to the nearest double (or to an infinity when it is out of range); \<open>fl\<close>
  is a parameter of the model. The satellite code is read in exact arithmetic. Strings
  are lists of 8-bit characters, which covers the ASCII keys and identifiers the handlers
  compare.
\<close>

datatype number = Num real | Infinity | NegInfinity | NaN

fun js_add :: "(real \<Rightarrow> number) \<Rightarrow> number \<Rightarrow> number \<Rightarrow> number" where
  "js_add fl (Num a) (Num b) = fl (a + b)"
| "js_add fl NaN y = NaN"
| "js_add fl x NaN = NaN"
| "js_add fl Infinity NegInfinity = NaN"
| "js_add fl NegInfinity Infinity = NaN"
| "js_add fl Infinity y = Infinity"
| "js_add fl NegInfinity y = NegInfinity"
| "js_add fl (Num a) y = y"

fun js_neg :: "number \<Rightarrow> number" where
  "js_neg (Num a) = Num (- a)"
| "js_neg Infinity = NegInfinity"
| "js_neg NegInfinity = Infinity"
| "js_neg NaN = NaN"

text \<open>An infinity times, or divided by, a finite number.\<close>

definition scaled_infinity :: "real \<Rightarrow> number" where
  "scaled_infinity b = (if b = 0 then NaN else if b > 0 then Infinity else NegInfinity)"

fun js_mul :: "(real \<Rightarrow> number) \<Rightarrow> number \<Rightarrow> number \<Rightarrow> number" where
  "js_mul fl (Num a) (Num b) = fl (a * b)"
| "js_mul fl NaN y = NaN"
| "js_mul fl x NaN = NaN"
| "js_mul fl Infinity (Num b) = scaled_infinity b"
| "js_mul fl NegInfinity (Num b) = js_neg (scaled_infinity b)"
| "js_mul fl (Num a) Infinity = scaled_infinity a"
| "js_mul fl (Num a) NegInfinity = js_neg (scaled_infinity a)"
| "js_mul fl Infinity Infinity = Infinity"
| "js_mul fl NegInfinity NegInfinity = Infinity"
| "js_mul fl Infinity NegInfinity = NegInfinity"
| "js_mul fl NegInfinity Infinity = NegInfinity"

text \<open>
  Division; the handlers divide by the literal 100 only. A finite number divided by zero
  is an infinity of its sign, zero by zero is NaN.
\<close>

fun js_div :: "(real \<Rightarrow> number) \<Rightarrow> number \<Rightarrow> number \<Rightarrow> number" where
  "js_div fl (Num a) (Num b) = (if b = 0 then scaled_infinity a else fl (a / b))"
| "js_div fl NaN y = NaN"
| "js_div fl x NaN = NaN"
| "js_div fl Infinity (Num b) = (if b \<ge> 0 then Infinity else NegInfinity)"
| "js_div fl NegInfinity (Num b) = (if b \<ge> 0 then NegInfinity else Infinity)"
| "js_div fl (Num a) y = Num 0"
| "js_div fl x y = NaN"

text \<open>
  \<open>Math.round\<close>: the nearest integer, a tie going up. The result is exact: the
  integer nearest to a double is a double.
\<close>

fun Math_round :: "number \<Rightarrow> number" where
  "Math_round (Num a) = Num (of_int \<lfloor>a + 1 / 2\<rfloor>)"
| "Math_round x = x"

text \<open>
  The value of a property read \<open>obj[key]\<close> on an object literal whose own properties
  are numbers: an own property, a member inherited from \<open>Object.prototype\<close> (a function,
  or for \<open>__proto__\<close> the prototype object itself), or \<open>undefined\<close>.
\<close>

datatype propval = Own number | Inherited | Undefined

definition object_prototype_keys :: "string list" where
  "object_prototype_keys =
     [''constructor'', ''__defineGetter__'', ''__defineSetter__'', ''hasOwnProperty'',
      ''__lookupGetter__'', ''__lookupSetter__'', ''isPrototypeOf'',
      ''propertyIsEnumerable'', ''toString'', ''valueOf'', ''__proto__'',
      ''toLocaleString'']"

definition get_prop :: "(string \<times> number) list \<Rightarrow> string \<Rightarrow> propval" where
  "get_prop obj k =
     (case map_of obj k of
        Some v \<Rightarrow> Own v
      | None \<Rightarrow> if k \<in> set object_prototype_keys then Inherited else Undefined)"

text \<open>
  \<open>v || d\<close> followed by a numeric use of the result: a falsy \<open>v\<close> (zero, NaN,
  undefined) gives the default; an inherited function or object is truthy and converts
  to NaN.
\<close>

fun or_default :: "propval \<Rightarrow> number \<Rightarrow> number" where
  "or_default (Own (Num v)) d = (if v = 0 then d else Num v)"
| "or_default (Own NaN) d = d"
| "or_default (Own v) d = v"
| "or_default Inherited d = NaN"
| "or_default Undefined d = d"

text \<open>\<open>String.prototype.toLowerCase\<close> on ASCII text.\<close>

definition lower_char :: "char \<Rightarrow> char" where
  "lower_char c =
     (case map_of (zip ''ABCDEFGHIJKLMNOPQRSTUVWXYZ'' ''abcdefghijklmnopqrstuvwxyz'') c of
        Some l \<Rightarrow> l
      | None \<Rightarrow> c)"

definition toLowerCase :: "string \<Rightarrow> string" where
  "toLowerCase s = map lower_char s"

section \<open>Carbon-credit calculator\<close>

text \<open>The two tables; a literal is the double nearest to the decimal written.\<close>

definition creditRates :: "(real \<Rightarrow> number) \<Rightarrow> (string \<times> number) list" where
  "creditRates fl =
     [(''no-till'', fl 0.5), (''cover-cropping'', fl 0.3), (''rotational-grazing'', fl 0.4),
      (''agroforestry'', fl 0.8), (''precision-agriculture'', fl 0.2),
      (''organic-farming'', fl 0.6)]"

definition cropMultipliers :: "(real \<Rightarrow> number) \<Rightarrow> (string \<times> number) list" where
  "cropMultipliers fl =
     [(''corn'', fl 1.0), (''soy'', fl 1.1), (''wheat'', fl 0.9), (''rice'', fl 1.2),
      (''cotton'', fl 0.8)]"

text \<open>The body of \<open>practices.forEach\<close>: one practice added to the running total.\<close>

definition add_practice :: "(real \<Rightarrow> number) \<Rightarrow> number \<Rightarrow> string \<Rightarrow> number \<Rightarrow> number" where
  "add_practice fl acreage practice estimatedCredits =
     (let rate = or_default (get_prop (creditRates fl) practice) (fl 0.1)
      in js_add fl estimatedCredits (js_mul fl rate acreage))"

text \<open>\<open>CarbonCreditService.calculateEstimatedCredits\<close> of the dashboard.\<close>

definition calculateEstimatedCredits ::
  "(real \<Rightarrow> number) \<Rightarrow> string list \<Rightarrow> number \<Rightarrow> string \<Rightarrow> number" where
  "calculateEstimatedCredits fl practices acreage cropType =
     (let estimatedCredits = fold (add_practice fl acreage) practices (Num 0);
          multiplier = or_default (get_prop (cropMultipliers fl) (toLowerCase cropType)) (fl 1.0)
      in js_div fl (Math_round (js_mul fl (js_mul fl estimatedCredits multiplier) (Num 100)))
           (Num 100))"

text \<open>
  The POST branch of the carbon-credit-integration handler computes the same estimate in
  two steps: the total is multiplied in place, and rounded where the row is written
  (\<open>estimated_credits\<close>).
\<close>

definition post_estimatedCredits ::
  "(real \<Rightarrow> number) \<Rightarrow> string list \<Rightarrow> number \<Rightarrow> string \<Rightarrow> number" where
  "post_estimatedCredits fl practices acreage cropType =
     (let estimatedCredits = fold (add_practice fl acreage) practices (Num 0);
          multiplier = or_default (get_prop (cropMultipliers fl) (toLowerCase cropType)) (fl 1.0)
      in js_mul fl estimatedCredits multiplier)"

definition post_estimated_credits_column ::
  "(real \<Rightarrow> number) \<Rightarrow> string list \<Rightarrow> number \<Rightarrow> string \<Rightarrow> number" where
  "post_estimated_credits_column fl practices acreage cropType =
     js_div fl (Math_round (js_mul fl (post_estimatedCredits fl practices acreage cropType)
                              (Num 100)))
       (Num 100)"

subsection \<open>The documented value\<close>

text \<open>
  The calculation as the documentation words it: the per-practice rates summed, times
  the acreage, times the crop multiplier, rounded to two decimals.
\<close>

definition documented_rate :: "string \<Rightarrow> real" where
  "documented_rate p =
     (if p = ''no-till'' then 0.5
      else if p = ''cover-cropping'' then 0.3
      else if p = ''rotational-grazing'' then 0.4
      else if p = ''agroforestry'' then 0.8
      else if p = ''precision-agriculture'' then 0.2
      else if p = ''organic-farming'' then 0.6
      else 0.1)"

definition documented_multiplier :: "string \<Rightarrow> real" where
  "documented_multiplier c =
     (let l = toLowerCase c in
      if l = ''corn'' then 1.0
      else if l = ''soy'' then 1.1
      else if l = ''wheat'' then 0.9
      else if l = ''rice'' then 1.2
      else if l = ''cotton'' then 0.8
      else 1.0)"

definition round2 :: "real \<Rightarrow> real" where
  "round2 x = of_int \<lfloor>x * 100 + 1 / 2\<rfloor> / 100"

definition documented_credits :: "string list \<Rightarrow> real \<Rightarrow> string \<Rightarrow> real" where
  "documented_credits practices acreage cropType =
     round2 (sum_list (map documented_rate practices) * acreage * documented_multiplier cropType)"

section \<open>Relational schema\<close>

text \<open>
  The tables of the migrations, with the constraints the DDL declares. A \<open>uuid\<close> is a
  natural number; \<open>gen_random_uuid()\<close> is modelled by a generator that returns a value
  not yet in the table. The timestamp columns \<open>created_at\<close> and \<open>updated_at\<close> of
  \<open>farmers\<close>, \<open>ivr_calls\<close> and \<open>carbon_credits\<close>, and the \<open>jsonb\<close> columns
  \<open>crop_details\<close> and \<open>field_locations\<close> of \<open>farmers\<close>, carry no constraint and
  are left out of the rows.
  The number an \<open>INSERT\<close> gives for a \<open>numeric(p, s)\<close> column is the decimal the
  statement carries; the column stores it rounded to \<open>s\<close> decimals and refuses it
  when the rounded value has more than \<open>p - s\<close> digits before the point.
  What an \<open>INSERT\<close> or \<open>UPDATE\<close> gives for a column is \<open>Default\<close> (the column is
  not named), \<open>Null\<close> or a value.
\<close>

type_synonym uuid = nat

datatype 'a column = Default | Null | Value 'a

datatype db_error =
    NotNullViolation string
  | UniqueViolation string
  | CheckViolation string
  | ForeignKeyViolation string
  | NumericValueOutOfRange string

fun column_or :: "'a option \<Rightarrow> 'a column \<Rightarrow> 'a option" where
  "column_or d Default = d"
| "column_or d Null = None"
| "column_or d (Value v) = Some v"

text \<open>An \<open>UPDATE\<close> leaves a column it does not name as it is.\<close>

fun column_set :: "'a option \<Rightarrow> 'a column \<Rightarrow> 'a option" where
  "column_set old Default = old"
| "column_set old Null = None"
| "column_set old (Value v) = Some v"

text \<open>
  The value a \<open>numeric(p, s)\<close> column takes for a number: rounded at the \<open>s\<close>-th
  decimal, a tie going away from zero, and refused when it does not fit; NULL passes.
\<close>

definition round_decimals :: "nat \<Rightarrow> real \<Rightarrow> real" where
  "round_decimals s x = sgn x * of_int \<lfloor>\<bar>x\<bar> * 10 ^ s + 1 / 2\<rfloor> / 10 ^ s"

fun numeric_value :: "nat \<Rightarrow> nat \<Rightarrow> string \<Rightarrow> real option \<Rightarrow> db_error + real option" where
  "numeric_value p s c None = Inr None"
| "numeric_value p s c (Some x) =
     (if \<bar>round_decimals s x\<bar> \<ge> 10 ^ (p - s) then Inl (NumericValueOutOfRange c)
      else Inr (Some (round_decimals s x)))"


definition gen_random_uuid :: "uuid list \<Rightarrow> uuid" where
  "gen_random_uuid used = Suc (fold max used 0)"

text \<open>
  \<open>.single()\<close> of the database client: the row when the query matches exactly one,
  no data otherwise. \<open>.maybeSingle()\<close> gives the same data.
\<close>

fun single :: "'a list \<Rightarrow> 'a option" where
  "single [x] = Some x"
| "single _ = None"

subsection \<open>farmers\<close>

record farmer =
  f_id :: uuid
  f_phone_number :: string
  f_full_name :: "string option"
  f_location_name :: "string option"
  f_latitude :: "real option"
  f_longitude :: "real option"
  f_preferred_language :: "string option"
  f_crop :: "string option"

record farmer_insert =
  fi_id :: "uuid column"
  fi_phone_number :: "string column"
  fi_full_name :: "string column"
  fi_location_name :: "string column"
  fi_latitude :: "real column"
  fi_longitude :: "real column"
  fi_preferred_language :: "string column"
  fi_crop :: "string column"

text \<open>
  \<open>INSERT INTO farmers\<close>: \<open>id\<close> is the primary key with a generated default,
  \<open>phone_number\<close> is \<open>UNIQUE NOT NULL\<close>, \<open>latitude\<close> and \<open>longitude\<close> are
  \<open>numeric(9,6)\<close>, \<open>preferred_language\<close> defaults to \<open>'English'\<close>. The values
  are brought to the types of their columns before any constraint is checked. The result
  is the error or the stored row, and the table afterwards.
\<close>

definition insert_farmer :: "farmer_insert \<Rightarrow> farmer list \<Rightarrow> (db_error + farmer) \<times> farmer list" where
  "insert_farmer p tbl =
     (case numeric_value 9 6 ''latitude'' (column_or None (fi_latitude p)) of
        Inl e \<Rightarrow> (Inl e, tbl)
      | Inr latitude \<Rightarrow>
     (case numeric_value 9 6 ''longitude'' (column_or None (fi_longitude p)) of
        Inl e \<Rightarrow> (Inl e, tbl)
      | Inr longitude \<Rightarrow>
     (case column_or (Some (gen_random_uuid (map f_id tbl))) (fi_id p) of
        None \<Rightarrow> (Inl (NotNullViolation ''id''), tbl)
      | Some i \<Rightarrow>
          (case column_or None (fi_phone_number p) of
             None \<Rightarrow> (Inl (NotNullViolation ''phone_number''), tbl)
           | Some ph \<Rightarrow>
               if i \<in> set (map f_id tbl) then (Inl (UniqueViolation ''farmers_pkey''), tbl)
               else if ph \<in> set (map f_phone_number tbl)
                 then (Inl (UniqueViolation ''farmers_phone_number_key''), tbl)
               else
                 (let row = \<lparr>f_id = i, f_phone_number = ph,
                       f_full_name = column_or None (fi_full_name p),
                       f_location_name = column_or None (fi_location_name p),
                       f_latitude = latitude,
                       f_longitude = longitude,
                       f_preferred_language = column_or (Some ''English'') (fi_preferred_language p),
                       f_crop = column_or None (fi_crop p)\<rparr>
                  in (Inr row, tbl @ [row]))))))"

text \<open>\<open>from('farmers').select('*').eq('phone_number', p).single()\<close>.\<close>

definition select_farmer_by_phone :: "string \<Rightarrow> farmer list \<Rightarrow> farmer option" where
  "select_farmer_by_phone p tbl = single (filter (\<lambda>r. f_phone_number r = p) tbl)"

subsection \<open>ivr_calls\<close>

record ivr_call =
  c_id :: uuid
  c_farmer_id :: "uuid option"
  c_crop_selected :: "string option"
  c_crop_condition :: "int option"
  c_rain_recent :: "bool option"
  c_opted_in_carbon :: "bool option"
  c_transcript :: "string option"
  c_call_duration :: "int option"
  c_call_status :: "string option"
  c_call_type :: "string option"

record ivr_call_insert =
  ci_id :: "uuid column"
  ci_farmer_id :: "uuid column"
  ci_crop_selected :: "string column"
  ci_crop_condition :: "int column"
  ci_rain_recent :: "bool column"
  ci_opted_in_carbon :: "bool column"
  ci_transcript :: "string column"
  ci_call_duration :: "int column"
  ci_call_status :: "string column"
  ci_call_type :: "string column"

text \<open>A \<open>CHECK\<close> constraint accepts a row when its condition is true or unknown (NULL).\<close>

fun check_in :: "'a list \<Rightarrow> 'a option \<Rightarrow> bool" where
  "check_in allowed None = True"
| "check_in allowed (Some v) = (v \<in> set allowed)"

fun check_between :: "int \<Rightarrow> int \<Rightarrow> int option \<Rightarrow> bool" where
  "check_between lo hi None = True"
| "check_between lo hi (Some v) = (lo \<le> v \<and> v \<le> hi)"

text \<open>\<open>REFERENCES farmers(id)\<close> on a nullable column.\<close>

fun references_farmer :: "farmer list \<Rightarrow> uuid option \<Rightarrow> bool" where
  "references_farmer fs None = True"
| "references_farmer fs (Some i) = (i \<in> set (map f_id fs))"

definition call_types :: "string list" where
  "call_types = [''traditional_ivr'', ''elevenlabs_voice'', ''whatsapp'', ''whatsapp_sent'',
     ''whatsapp_delivered'', ''whatsapp_read'']"

text \<open>
  \<open>INSERT INTO ivr_calls\<close>. The constraints of the table: the primary key, the foreign
  key \<open>farmer_id\<close>, \<open>CHECK (crop_condition BETWEEN 1 AND 3)\<close> and the later
  \<open>ivr_calls_call_type_check\<close>. The column \<open>call_status\<close> is
  \<open>text DEFAULT 'completed'\<close> and has no constraint.
\<close>

definition insert_ivr_call ::
  "ivr_call_insert \<Rightarrow> farmer list \<Rightarrow> ivr_call list \<Rightarrow> (db_error + ivr_call) \<times> ivr_call list" where
  "insert_ivr_call p fs tbl =
     (case column_or (Some (gen_random_uuid (map c_id tbl))) (ci_id p) of
        None \<Rightarrow> (Inl (NotNullViolation ''id''), tbl)
      | Some i \<Rightarrow>
          (let row = \<lparr>c_id = i,
                 c_farmer_id = column_or None (ci_farmer_id p),
                 c_crop_selected = column_or None (ci_crop_selected p),
                 c_crop_condition = column_or None (ci_crop_condition p),
                 c_rain_recent = column_or (Some False) (ci_rain_recent p),
                 c_opted_in_carbon = column_or (Some False) (ci_opted_in_carbon p),
                 c_transcript = column_or None (ci_transcript p),
                 c_call_duration = column_or (Some 0) (ci_call_duration p),
                 c_call_status = column_or (Some ''completed'') (ci_call_status p),
                 c_call_type = column_or (Some ''traditional_ivr'') (ci_call_type p)\<rparr>
           in if \<not> check_between 1 3 (c_crop_condition row)
                then (Inl (CheckViolation ''ivr_calls_crop_condition_check''), tbl)
              else if \<not> check_in call_types (c_call_type row)
                then (Inl (CheckViolation ''ivr_calls_call_type_check''), tbl)
              else if i \<in> set (map c_id tbl) then (Inl (UniqueViolation ''ivr_calls_pkey''), tbl)
              else if \<not> references_farmer fs (c_farmer_id row)
                then (Inl (ForeignKeyViolation ''ivr_calls_farmer_id_fkey''), tbl)
              else (Inr row, tbl @ [row])))"

subsection \<open>carbon_credits\<close>

record carbon_credit =
  cc_id :: uuid
  cc_farmer_id :: "uuid option"
  cc_opt_in_date :: string
  cc_practices_reported :: "string option"
  cc_verification_status :: "string option"
  cc_estimated_credits :: "real option"
  cc_verified_credits :: "real option"
  cc_credit_price :: "real option"
  cc_total_value :: "real option"
  cc_registry_id :: "string option"

record carbon_credit_write =
  cw_id :: "uuid column"
  cw_farmer_id :: "uuid column"
  cw_opt_in_date :: "string column"
  cw_practices_reported :: "string column"
  cw_verification_status :: "string column"
  cw_estimated_credits :: "real column"
  cw_verified_credits :: "real column"
  cw_credit_price :: "real column"
  cw_total_value :: "real column"
  cw_registry_id :: "string column"

definition verification_statuses :: "string list" where
  "verification_statuses = [''pending'', ''verified'', ''rejected'']"

text \<open>
  The four amounts of a row, brought to their columns: \<open>estimated_credits\<close>,
  \<open>verified_credits\<close> and \<open>credit_price\<close> are \<open>numeric(10,2)\<close>,
  \<open>total_value\<close> is \<open>numeric(12,2)\<close>.
\<close>

definition credit_numerics ::
  "real option \<Rightarrow> real option \<Rightarrow> real option \<Rightarrow> real option \<Rightarrow>
   db_error + (real option \<times> real option \<times> real option \<times> real option)" where
  "credit_numerics estimated verified price amount =
     (case numeric_value 10 2 ''estimated_credits'' estimated of
        Inl e \<Rightarrow> Inl e
      | Inr estimated' \<Rightarrow>
     (case numeric_value 10 2 ''verified_credits'' verified of
        Inl e \<Rightarrow> Inl e
      | Inr verified' \<Rightarrow>
     (case numeric_value 10 2 ''credit_price'' price of
        Inl e \<Rightarrow> Inl e
      | Inr price' \<Rightarrow>
     (case numeric_value 12 2 ''total_value'' amount of
        Inl e \<Rightarrow> Inl e
      | Inr amount' \<Rightarrow> Inr (estimated', verified', price', amount')))))"

text \<open>
  \<open>INSERT INTO carbon_credits\<close>: the primary key, \<open>opt_in_date NOT NULL\<close>, the foreign
  key, and \<open>CHECK (verification_status IN ('pending', 'verified', 'rejected'))\<close> on a
  nullable column that defaults to \<open>'pending'\<close>.
\<close>

definition insert_carbon_credit ::
  "carbon_credit_write \<Rightarrow> farmer list \<Rightarrow> carbon_credit list \<Rightarrow>
   (db_error + carbon_credit) \<times> carbon_credit list" where
  "insert_carbon_credit p fs tbl =
     (case credit_numerics (column_or (Some 0) (cw_estimated_credits p))
             (column_or (Some 0) (cw_verified_credits p))
             (column_or (Some 0) (cw_credit_price p))
             (column_or (Some 0) (cw_total_value p)) of
        Inl e \<Rightarrow> (Inl e, tbl)
      | Inr (estimated, verified, price, amount) \<Rightarrow>
     (case column_or (Some (gen_random_uuid (map cc_id tbl))) (cw_id p) of
        None \<Rightarrow> (Inl (NotNullViolation ''id''), tbl)
      | Some i \<Rightarrow>
          (case column_or None (cw_opt_in_date p) of
             None \<Rightarrow> (Inl (NotNullViolation ''opt_in_date''), tbl)
           | Some d \<Rightarrow>
               (let row = \<lparr>cc_id = i,
                      cc_farmer_id = column_or None (cw_farmer_id p),
                      cc_opt_in_date = d,
                      cc_practices_reported = column_or None (cw_practices_reported p),
                      cc_verification_status = column_or (Some ''pending'') (cw_verification_status p),
                      cc_estimated_credits = estimated,
                      cc_verified_credits = verified,
                      cc_credit_price = price,
                      cc_total_value = amount,
                      cc_registry_id = column_or None (cw_registry_id p)\<rparr>
                in if \<not> check_in verification_statuses (cc_verification_status row)
                     then (Inl (CheckViolation ''carbon_credits_verification_status_check''), tbl)
                   else if i \<in> set (map cc_id tbl)
                     then (Inl (UniqueViolation ''carbon_credits_pkey''), tbl)
                   else if \<not> references_farmer fs (cc_farmer_id row)
                     then (Inl (ForeignKeyViolation ''carbon_credits_farmer_id_fkey''), tbl)
                   else (Inr row, tbl @ [row])))))"

text \<open>
  \<open>UPDATE carbon_credits SET ... WHERE farmer_id = fid\<close>: every matching row is
  rewritten and checked; one violation rejects the whole statement. No statement of the
  repository updates the primary key, so \<open>cw_id\<close> is not read.
\<close>

definition update_carbon_credit_row ::
  "carbon_credit_write \<Rightarrow> farmer list \<Rightarrow> carbon_credit \<Rightarrow> db_error + carbon_credit" where
  "update_carbon_credit_row u fs r =
     (case credit_numerics (column_set (cc_estimated_credits r) (cw_estimated_credits u))
             (column_set (cc_verified_credits r) (cw_verified_credits u))
             (column_set (cc_credit_price r) (cw_credit_price u))
             (column_set (cc_total_value r) (cw_total_value u)) of
        Inl e \<Rightarrow> Inl e
      | Inr (estimated, verified, price, amount) \<Rightarrow>
     (case column_set (Some (cc_opt_in_date r)) (cw_opt_in_date u) of
        None \<Rightarrow> Inl (NotNullViolation ''opt_in_date'')
      | Some d \<Rightarrow>
          (let row = \<lparr>cc_id = cc_id r,
                 cc_farmer_id = column_set (cc_farmer_id r) (cw_farmer_id u),
                 cc_opt_in_date = d,
                 cc_practices_reported = column_set (cc_practices_reported r) (cw_practices_reported u),
                 cc_verification_status = column_set (cc_verification_status r) (cw_verification_status u),
                 cc_estimated_credits = estimated,
                 cc_verified_credits = verified,
                 cc_credit_price = price,
                 cc_total_value = amount,
                 cc_registry_id = column_set (cc_registry_id r) (cw_registry_id u)\<rparr>
           in if \<not> check_in verification_statuses (cc_verification_status row)
                then Inl (CheckViolation ''carbon_credits_verification_status_check'')
              else if \<not> references_farmer fs (cc_farmer_id row)
                then Inl (ForeignKeyViolation ''carbon_credits_farmer_id_fkey'')
              else Inr row)))"

fun update_carbon_credit_rows ::
  "uuid \<Rightarrow> carbon_credit_write \<Rightarrow> farmer list \<Rightarrow> carbon_credit list \<Rightarrow>
   db_error + carbon_credit list" where
  "update_carbon_credit_rows fid u fs [] = Inr []"
| "update_carbon_credit_rows fid u fs (r # rs) =
     (if cc_farmer_id r = Some fid then
        (case update_carbon_credit_row u fs r of
           Inl e \<Rightarrow> Inl e
         | Inr r' \<Rightarrow>
             (case update_carbon_credit_rows fid u fs rs of
                Inl e \<Rightarrow> Inl e
              | Inr rs' \<Rightarrow> Inr (r' # rs')))
      else
        (case update_carbon_credit_rows fid u fs rs of
           Inl e \<Rightarrow> Inl e
         | Inr rs' \<Rightarrow> Inr (r # rs')))"

definition update_carbon_credits ::
  "uuid \<Rightarrow> carbon_credit_write \<Rightarrow> farmer list \<Rightarrow> carbon_credit list \<Rightarrow>
   db_error option \<times> carbon_credit list" where
  "update_carbon_credits fid u fs tbl =
     (case update_carbon_credit_rows fid u fs tbl of
        Inl e \<Rightarrow> (Some e, tbl)
      | Inr tbl' \<Rightarrow> (None, tbl'))"

text \<open>Any sequence of writes to \<open>carbon_credits\<close>, from the empty table the migration creates.\<close>

datatype carbon_credit_statement =
    InsertCredit carbon_credit_write
  | UpdateCredit uuid carbon_credit_write

fun exec_carbon_credit ::
  "farmer list \<Rightarrow> carbon_credit_statement \<Rightarrow> carbon_credit list \<Rightarrow> carbon_credit list" where
  "exec_carbon_credit fs (InsertCredit p) tbl = snd (insert_carbon_credit p fs tbl)"
| "exec_carbon_credit fs (UpdateCredit fid u) tbl = snd (update_carbon_credits fid u fs tbl)"

definition carbon_credits_after :: "farmer list \<Rightarrow> carbon_credit_statement list \<Rightarrow> carbon_credit list" where
  "carbon_credits_after fs stmts = fold (exec_carbon_credit fs) stmts []"

definition verification_status_checked :: "carbon_credit \<Rightarrow> bool" where
  "verification_status_checked r =
     (cc_verification_status r = None \<or> cc_verification_status r = Some ''pending''
      \<or> cc_verification_status r = Some ''verified'' \<or> cc_verification_status r = Some ''rejected'')"

section \<open>JSON, requests and responses\<close>

datatype json =
    JNull
  | JBool bool
  | JNumber real
  | JString string
  | JArray "json list"
  | JObject "(string \<times> json) list"

text \<open>The truth value JavaScript gives a parsed JSON value.\<close>

fun truthy :: "json \<Rightarrow> bool" where
  "truthy JNull = False"
| "truthy (JBool b) = b"
| "truthy (JNumber n) = (n \<noteq> 0)"
| "truthy (JString s) = (s \<noteq> [])"
| "truthy (JArray xs) = True"
| "truthy (JObject kvs) = True"

datatype js_error =
    Error string
  | TypeError string
  | ReferenceError string
  | SyntaxError string

fun error_message :: "js_error \<Rightarrow> string" where
  "error_message (Error m) = m"
| "error_message (TypeError m) = m"
| "error_message (ReferenceError m) = m"
| "error_message (SyntaxError m) = m"

fun db_error_message :: "db_error \<Rightarrow> string" where
  "db_error_message (NotNullViolation c) = ''null value violates not-null constraint: '' @ c"
| "db_error_message (UniqueViolation c) = ''duplicate key value violates unique constraint: '' @ c"
| "db_error_message (CheckViolation c) = ''new row violates check constraint: '' @ c"
| "db_error_message (ForeignKeyViolation c) = ''violates foreign key constraint: '' @ c"
| "db_error_message (NumericValueOutOfRange c) = ''numeric field overflow: '' @ c"

text \<open>
  A property \<open>v.k\<close> of a parsed JSON value, as destructuring and member access read it:
  a TypeError on \<open>null\<close>, \<open>undefined\<close> (here \<open>None\<close>) where the value has no such
  own property.
\<close>

fun js_member :: "json \<Rightarrow> string \<Rightarrow> js_error + json option" where
  "js_member JNull k = Inl (TypeError (''Cannot read properties of null (reading '' @ k @ '')''))"
| "js_member (JObject kvs) k = Inr (map_of kvs k)"
| "js_member _ k = Inr None"

text \<open>
  A request, as far as the handlers read it: the method, the query parameters of the URL
  and what \<open>await req.json()\<close> gives (a thrown error or the parsed body). A response is
  its status and its body; a JSON body is kept as the value that \<open>JSON.stringify\<close>
  prints. Every response carries the same CORS headers, which are not modelled. The
  console is the list of the lines written, each with the error it reports.
\<close>

record request =
  req_method :: string
  req_query :: "(string \<times> string) list"
  req_json :: "js_error + json"

datatype body = NoBody | TextBody string | JsonBody json

record response =
  status :: nat
  body :: body

type_synonym console = "(string \<times> string) list"

section \<open>Credential store\<close>

record api_credential =
  ac_id :: string
  ac_credentials :: json
  ac_created_at :: "string option"
  ac_updated_at :: "string option"

text \<open>
  \<open>update({credentials, updated_at}).eq('id', i)\<close> and \<open>insert({id, credentials,
  created_at, updated_at})\<close> on \<open>api_credentials\<close>: \<open>id\<close> is the primary key and
  \<open>credentials\<close> is \<open>jsonb NOT NULL\<close>.
\<close>

definition update_api_credentials ::
  "string \<Rightarrow> json \<Rightarrow> string \<Rightarrow> api_credential list \<Rightarrow> db_error option \<times> api_credential list" where
  "update_api_credentials i credentials now tbl =
     (if credentials = JNull \<and> i \<in> set (map ac_id tbl)
        then (Some (NotNullViolation ''credentials''), tbl)
      else (None, map (\<lambda>r. if ac_id r = i
                             then r\<lparr>ac_credentials := credentials, ac_updated_at := Some now\<rparr>
                             else r) tbl))"

definition insert_api_credentials ::
  "string \<Rightarrow> json \<Rightarrow> string \<Rightarrow> api_credential list \<Rightarrow> db_error option \<times> api_credential list" where
  "insert_api_credentials i credentials now tbl =
     (if credentials = JNull then (Some (NotNullViolation ''credentials''), tbl)
      else if i \<in> set (map ac_id tbl) then (Some (UniqueViolation ''api_credentials_pkey''), tbl)
      else (None, tbl @ [\<lparr>ac_id = i, ac_credentials = credentials,
                           ac_created_at = Some now, ac_updated_at = Some now\<rparr>]))"

text \<open>
  The save-api-credentials handler. \<open>now\<close> is \<open>new Date().toISOString()\<close> at the
  request. The body of the \<open>try\<close> gives a thrown error or the response, the console and
  the table; the \<open>catch\<close> turns a thrown error into the 500 response.
\<close>

definition save_try ::
  "string \<Rightarrow> request \<Rightarrow> api_credential list \<Rightarrow>
   js_error + (response \<times> console \<times> api_credential list)" where
  "save_try now req tbl =
     (case req_json req of
        Inl e \<Rightarrow> Inl e
      | Inr b \<Rightarrow>
          (case js_member b ''credentials'' of
             Inl e \<Rightarrow> Inl e
           | Inr credentials \<Rightarrow>
               (case (case credentials of
                        None \<Rightarrow> None
                      | Some c \<Rightarrow> if truthy c then Some c else None) of
                  None \<Rightarrow>
                    Inr (\<lparr>status = 200,
                          body = JsonBody (JObject [(''success'', JBool False),
                                   (''message'', JString ''Credentials are required'')])\<rparr>, [], tbl)
                | Some c \<Rightarrow>
                    (let existingData = single (filter (\<lambda>r. ac_id r = ''main'') tbl);
                         result = (if existingData \<noteq> None
                                   then update_api_credentials ''main'' c now tbl
                                   else insert_api_credentials ''main'' c now tbl)
                     in case fst result of
                          Some e \<Rightarrow>
                            Inr (\<lparr>status = 200,
                                  body = JsonBody (JObject [(''success'', JBool False),
                                           (''message'', JString (db_error_message e))])\<rparr>,
                                 [(''Error saving credentials:'', db_error_message e)], snd result)
                        | None \<Rightarrow>
                            Inr (\<lparr>status = 200,
                                  body = JsonBody (JObject [(''success'', JBool True),
                                           (''message'', JString ''Credentials saved successfully'')])\<rparr>,
                                 [], snd result)))))"

definition save_api_credentials ::
  "string \<Rightarrow> request \<Rightarrow> api_credential list \<Rightarrow> response \<times> console \<times> api_credential list" where
  "save_api_credentials now req tbl =
     (if req_method req = ''OPTIONS'' then (\<lparr>status = 200, body = NoBody\<rparr>, [], tbl)
      else case save_try now req tbl of
             Inr r \<Rightarrow> r
           | Inl e \<Rightarrow>
               (\<lparr>status = 500,
                 body = JsonBody (JObject [(''success'', JBool False),
                          (''message'', JString (error_message e))])\<rparr>,
                [(''Error in save-api-credentials:'', error_message e)], tbl))"

text \<open>
  A run of the handler over a sequence of requests, each at its own time, from the empty
  table the migration creates.
\<close>

definition save_step :: "string \<times> request \<Rightarrow> api_credential list \<Rightarrow> api_credential list" where
  "save_step nr tbl = snd (snd (save_api_credentials (fst nr) (snd nr) tbl))"

definition api_credentials_after :: "(string \<times> request) list \<Rightarrow> api_credential list" where
  "api_credentials_after nrs = fold save_step nrs []"

text \<open>
  The credentials blob a request submits: the \<open>credentials\<close> member of its JSON body,
  when the body parses and the member is not empty (null, false, 0 or the empty string).
\<close>

definition submitted_credentials :: "request \<Rightarrow> json option" where
  "submitted_credentials req =
     (if req_method req = ''OPTIONS'' then None
      else case req_json req of
             Inr (JObject kvs) \<Rightarrow>
               (case map_of kvs ''credentials'' of
                  Some c \<Rightarrow> if truthy c then Some c else None
                | None \<Rightarrow> None)
           | _ \<Rightarrow> None)"

definition latest :: "json option \<Rightarrow> request \<Rightarrow> json option" where
  "latest acc req = (case submitted_credentials req of Some c \<Rightarrow> Some c | None \<Rightarrow> acc)"

definition last_submitted :: "request list \<Rightarrow> json option" where
  "last_submitted reqs = foldl latest None reqs"

definition stored_credentials :: "api_credential list \<Rightarrow> (string \<times> json) list" where
  "stored_credentials tbl = map (\<lambda>r. (ac_id r, ac_credentials r)) tbl"

section \<open>WhatsApp webhook: an inbound message\<close>

record database =
  farmers :: "farmer list"
  ivr_calls :: "ivr_call list"
  carbon_credits :: "carbon_credit list"
  api_credentials :: "api_credential list"

record wa_message =
  m_from :: string
  m_text_body :: "string option"

record wa_contact =
  wa_id :: string
  profile_name :: "string option"

text \<open>\<open>String.prototype.includes\<close>: the argument occurs as a substring.\<close>

fun starts_with :: "string \<Rightarrow> string \<Rightarrow> bool" where
  "starts_with s [] = True"
| "starts_with [] (c # cs) = False"
| "starts_with (x # xs) (c # cs) = (x = c \<and> starts_with xs cs)"

fun str_includes :: "string \<Rightarrow> string \<Rightarrow> bool" where
  "str_includes [] t = (t = [])"
| "str_includes (x # xs) t = (starts_with (x # xs) t \<or> str_includes xs t)"

text \<open>\<open>messageText?.includes(t)\<close>: undefined, so false, when the message has no text.\<close>

fun text_includes :: "string option \<Rightarrow> string \<Rightarrow> bool" where
  "text_includes None t = False"
| "text_includes (Some s) t = str_includes s t"

datatype reply = CropReport | Weather | CarbonProgram | SatelliteReport | Advisor | Menu | Welcome

definition choose_reply :: "string option \<Rightarrow> reply" where
  "choose_reply messageText =
     (if text_includes messageText ''crop'' \<or> text_includes messageText ''1'' then CropReport
      else if text_includes messageText ''weather'' \<or> text_includes messageText ''2'' then Weather
      else if text_includes messageText ''carbon'' \<or> text_includes messageText ''3'' then CarbonProgram
      else if text_includes messageText ''satellite'' \<or> text_includes messageText ''4''
        then SatelliteReport
      else if text_includes messageText ''advisor'' \<or> text_includes messageText ''5'' then Advisor
      else if text_includes messageText ''menu'' \<or> text_includes messageText ''6'' then Menu
      else Welcome)"

text \<open>\<open>contacts?.find(c => c.wa_id === phoneNumber)?.profile?.name || 'Unknown Farmer'\<close>.\<close>

definition contact_name :: "wa_contact list \<Rightarrow> string \<Rightarrow> string" where
  "contact_name contacts phoneNumber =
     (case find (\<lambda>c. wa_id c = phoneNumber) contacts of
        None \<Rightarrow> ''Unknown Farmer''
      | Some c \<Rightarrow>
          (case profile_name c of
             None \<Rightarrow> ''Unknown Farmer''
           | Some n \<Rightarrow> if n = [] then ''Unknown Farmer'' else n))"

definition no_farmer_columns :: farmer_insert where
  "no_farmer_columns =
     \<lparr>fi_id = Default, fi_phone_number = Default, fi_full_name = Default,
      fi_location_name = Default, fi_latitude = Default, fi_longitude = Default,
      fi_preferred_language = Default, fi_crop = Default\<rparr>"

definition no_call_columns :: ivr_call_insert where
  "no_call_columns =
     \<lparr>ci_id = Default, ci_farmer_id = Default, ci_crop_selected = Default,
      ci_crop_condition = Default, ci_rain_recent = Default, ci_opted_in_carbon = Default,
      ci_transcript = Default, ci_call_duration = Default, ci_call_status = Default,
      ci_call_type = Default\<rparr>"

text \<open>
  A property whose value is \<open>undefined\<close> is dropped from the JSON sent to the database,
  so the column takes its default.
\<close>

fun optional_column :: "'a option \<Rightarrow> 'a column" where
  "optional_column None = Default"
| "optional_column (Some v) = Value v"

text \<open>
  \<open>handleIncomingMessage\<close>. The texts of the replies are a table \<open>responseMessage\<close>
  of the handler, taken as a parameter. The database client returns its errors instead of
  throwing them and the handler reads none of them, so no step of the \<open>try\<close> throws. The
  result is the console and the database afterwards.
\<close>

definition handleIncomingMessage ::
  "(reply \<Rightarrow> string) \<Rightarrow> wa_message \<Rightarrow> wa_contact list \<Rightarrow> database \<Rightarrow> console \<times> database" where
  "handleIncomingMessage responseMessage message contacts db =
     (let phoneNumber = m_from message;
          messageText = map_option toLowerCase (m_text_body message);
          farmer = select_farmer_by_phone phoneNumber (farmers db);
          db1 = (case farmer of
                   Some f \<Rightarrow> db
                 | None \<Rightarrow>
                     db\<lparr>farmers := snd (insert_farmer
                          (no_farmer_columns\<lparr>fi_phone_number := Value phoneNumber,
                             fi_full_name := Value (contact_name contacts phoneNumber),
                             fi_preferred_language := Value ''English''\<rparr>) (farmers db))\<rparr>);
          reply = responseMessage (choose_reply messageText);
          logged = (''Would send to '' @ phoneNumber @ '': '', reply);
          transcript = ''Received: \"'' @ (case messageText of None \<Rightarrow> ''undefined'' | Some t \<Rightarrow> t)
                       @ ''\" | Replied: \"'' @ take 100 reply @ ''...\"'';
          db2 = db1\<lparr>ivr_calls := snd (insert_ivr_call
                     (no_call_columns\<lparr>ci_farmer_id := optional_column (map_option f_id farmer),
                        ci_call_status := Value ''whatsapp_received'',
                        ci_transcript := Value transcript,
                        ci_call_duration := Value 0\<rparr>) (farmers db1) (ivr_calls db1))\<rparr>
      in ([logged], db2))"

section \<open>Carbon-credit-integration handler\<close>

text \<open>
  What the handler reads of its surroundings: the successive values of
  \<open>Math.random()\<close> within the request, the date part of
  \<open>new Date().toISOString()\<close>, and \<open>Date.now()\<close> as it prints.
\<close>

record js_env =
  random :: "nat \<Rightarrow> real"
  today :: string
  date_now :: string

text \<open>
  The body of a POST, typed as the handler's \<open>CarbonCreditRequest\<close>; the request is
  the method, the \<open>farmer_id\<close> query parameter and what \<open>await req.json()\<close> gives.
\<close>

record carbon_credit_request =
  r_farmerId :: string
  r_practices :: "string list"
  r_acreage :: number
  r_cropType :: string

record credit_request =
  cr_method :: string
  cr_farmer_id :: "string option"
  cr_json :: "js_error + carbon_credit_request"

text \<open>
  The text of a uuid is its decimal numeral; any other text is refused by the database
  (invalid input syntax for type uuid).
\<close>

definition digit_value :: "char \<Rightarrow> nat option" where
  "digit_value c = map_of (zip ''0123456789'' [0, 1, 2, 3, 4, 5, 6, 7, 8, 9]) c"

fun nat_of_digits :: "nat \<Rightarrow> string \<Rightarrow> nat option" where
  "nat_of_digits n [] = Some n"
| "nat_of_digits n (c # cs) =
     (case digit_value c of None \<Rightarrow> None | Some d \<Rightarrow> nat_of_digits (10 * n + d) cs)"

definition uuid_of_text :: "string \<Rightarrow> uuid option" where
  "uuid_of_text s = (if s = [] then None else nat_of_digits 0 s)"

definition invalid_uuid :: "string \<Rightarrow> string" where
  "invalid_uuid s = ''invalid input syntax for type uuid: '' @ s"

text \<open>
  A number as a column value and in a response: \<open>JSON.stringify\<close> prints NaN and the
  infinities as \<open>null\<close>, and a double as the decimal that denotes it.
\<close>

fun column_of_number :: "number \<Rightarrow> real column" where
  "column_of_number (Num r) = Value r"
| "column_of_number x = Null"

fun json_of_number :: "number \<Rightarrow> json" where
  "json_of_number (Num r) = JNumber r"
| "json_of_number x = JNull"

definition round_cents :: "(real \<Rightarrow> number) \<Rightarrow> number \<Rightarrow> number" where
  "round_cents fl x = js_div fl (Math_round (js_mul fl x (Num 100))) (Num 100)"

fun json_of_option :: "('a \<Rightarrow> json) \<Rightarrow> 'a option \<Rightarrow> json" where
  "json_of_option f None = JNull"
| "json_of_option f (Some v) = f v"

definition json_of_carbon_credit :: "carbon_credit \<Rightarrow> json" where
  "json_of_carbon_credit r =
     JObject [(''id'', JNumber (of_nat (cc_id r))),
              (''farmer_id'', json_of_option (\<lambda>i. JNumber (of_nat i)) (cc_farmer_id r)),
              (''opt_in_date'', JString (cc_opt_in_date r)),
              (''practices_reported'', json_of_option JString (cc_practices_reported r)),
              (''verification_status'', json_of_option JString (cc_verification_status r)),
              (''estimated_credits'', json_of_option JNumber (cc_estimated_credits r)),
              (''verified_credits'', json_of_option JNumber (cc_verified_credits r)),
              (''credit_price'', json_of_option JNumber (cc_credit_price r)),
              (''total_value'', json_of_option JNumber (cc_total_value r)),
              (''registry_id'', json_of_option JString (cc_registry_id r))]"

definition no_credit_columns :: carbon_credit_write where
  "no_credit_columns =
     \<lparr>cw_id = Default, cw_farmer_id = Default, cw_opt_in_date = Default,
      cw_practices_reported = Default, cw_verification_status = Default,
      cw_estimated_credits = Default, cw_verified_credits = Default,
      cw_credit_price = Default, cw_total_value = Default, cw_registry_id = Default\<rparr>"

text \<open>\<open>practices.join(", ")\<close> and \<open>farmerId.slice(-6)\<close>.\<close>

fun join :: "string \<Rightarrow> string list \<Rightarrow> string" where
  "join sep [] = []"
| "join sep [x] = x"
| "join sep (x # y # ys) = x @ sep @ join sep (y # ys)"

definition slice_last :: "nat \<Rightarrow> string \<Rightarrow> string" where
  "slice_last n s = drop (length s - n) s"

text \<open>
  The identifiers in scope where each branch builds its response. \<open>const creditRates\<close>
  and \<open>const cropMultipliers\<close> are declared inside the block of the POST branch; the
  block of the GET branch declares \<open>url\<close>, \<open>farmerId\<close>, \<open>carbonCredit\<close>,
  \<open>error\<close> and \<open>marketData\<close>. Reading an identifier that no enclosing scope
  declares throws a ReferenceError.
\<close>

definition handler_scope :: "string list" where
  "handler_scope = [''serve'', ''createClient'', ''corsHeaders'', ''req'', ''supabase'']"

definition post_block_scope :: "string list" where
  "post_block_scope = handler_scope @
     [''farmerId'', ''practices'', ''acreage'', ''cropType'', ''estimatedCredits'',
      ''creditRates'', ''cropMultipliers'', ''multiplier'', ''carbonPrice'',
      ''existingCredit'', ''result'', ''verificationResult'']"

definition get_block_scope :: "string list" where
  "get_block_scope = handler_scope @
     [''url'', ''farmerId'', ''carbonCredit'', ''error'', ''marketData'']"

definition read_identifier :: "string list \<Rightarrow> string \<Rightarrow> 'a \<Rightarrow> js_error + 'a" where
  "read_identifier scope name v =
     (if name \<in> set scope then Inr v else Inl (ReferenceError (name @ '' is not defined'')))"

text \<open>The POST branch: estimate, then update the farmer's row or insert one.\<close>

definition credit_post ::
  "(real \<Rightarrow> number) \<Rightarrow> js_env \<Rightarrow> carbon_credit_request \<Rightarrow> database \<Rightarrow>
   js_error + (response \<times> database)" where
  "credit_post fl env r db =
     (let estimatedCredits = post_estimatedCredits fl (r_practices r) (r_acreage r) (r_cropType r);
          carbonPrice = js_add fl (Num 15) (js_mul fl (Num (random env 0)) (Num 10));
          total_value = round_cents fl (js_mul fl estimatedCredits carbonPrice);
          fid = uuid_of_text (r_farmerId r);
          existingCredit =
            (case fid of
               None \<Rightarrow> None
             | Some i \<Rightarrow> single (filter (\<lambda>c. cc_farmer_id c = Some i) (carbon_credits db)));
          written = no_credit_columns
            \<lparr>cw_practices_reported := Value (join '', '' (r_practices r)),
             cw_estimated_credits := column_of_number (round_cents fl estimatedCredits),
             cw_credit_price := column_of_number (round_cents fl carbonPrice),
             cw_total_value := column_of_number total_value\<rparr>;
          result =
            (case fid of
               None \<Rightarrow> (Inl (invalid_uuid (r_farmerId r)), carbon_credits db)
             | Some i \<Rightarrow>
                 if existingCredit \<noteq> None then
                   (case update_carbon_credits i written (farmers db) (carbon_credits db) of
                      (Some e, tbl) \<Rightarrow> (Inl (db_error_message e), tbl)
                    | (None, tbl) \<Rightarrow>
                        (case single (filter (\<lambda>c. cc_farmer_id c = Some i) tbl) of
                           None \<Rightarrow> (Inl ''JSON object requested, multiple (or no) rows returned'', tbl)
                         | Some row \<Rightarrow> (Inr row, tbl)))
                 else
                   (case insert_carbon_credit
                           (written\<lparr>cw_farmer_id := Value i,
                              cw_opt_in_date := Value (today env),
                              cw_verification_status := Value ''pending'',
                              cw_registry_id :=
                                Value (''AGS-'' @ date_now env @ ''-'' @ slice_last 6 (r_farmerId r))\<rparr>)
                           (farmers db) (carbon_credits db) of
                      (Inl e, tbl) \<Rightarrow> (Inl (db_error_message e), tbl)
                    | (Inr row, tbl) \<Rightarrow> (Inr row, tbl)))
      in case result of
           (Inl m, tbl) \<Rightarrow> Inl (Error m)
         | (Inr row, tbl) \<Rightarrow>
             Inr (\<lparr>status = 200,
                   body = JsonBody (JObject
                     [(''carbonCredit'', json_of_carbon_credit row),
                      (''verification'', JObject
                         [(''status'', JString ''submitted''),
                          (''estimatedTimeframe'', JString ''14-21 days''),
                          (''requiredDocuments'', JArray
                             [JString ''Soil carbon analysis'',
                              JString ''Practice implementation photos'',
                              JString ''Field management records'']),
                          (''nextSteps'', JArray
                             [JString ''Site verification scheduled'',
                              JString ''Documentation review'',
                              JString ''Credit issuance upon approval''])]),
                      (''marketInfo'', JObject
                         [(''currentPrice'', json_of_number carbonPrice),
                          (''priceRange'', JString ''$15-25 per credit''),
                          (''marketTrend'', JString ''stable''),
                          (''projectedValue'', json_of_number total_value)])])\<rparr>,
                  db\<lparr>carbon_credits := tbl\<rparr>))"

text \<open>
  The GET branch. The last step builds the body of the 200 response; its third member is
  \<open>Object.keys(creditRates)\<close>, read in the scope of the GET block.
\<close>

definition credit_get ::
  "(real \<Rightarrow> number) \<Rightarrow> js_env \<Rightarrow> string option \<Rightarrow> database \<Rightarrow> js_error + response" where
  "credit_get fl env farmer_id db =
     (case farmer_id of
        None \<Rightarrow> Inl (Error ''farmer_id is required'')
      | Some farmerId \<Rightarrow>
          if farmerId = [] then Inl (Error ''farmer_id is required'')
          else
            (case uuid_of_text farmerId of
               None \<Rightarrow> Inl (Error (invalid_uuid farmerId))
             | Some i \<Rightarrow>
                 (let carbonCredit = single (filter (\<lambda>c. cc_farmer_id c = Some i) (carbon_credits db));
                      currentPrice = js_add fl (Num 15) (js_mul fl (Num (random env 0)) (Num 10));
                      marketData = JObject
                        [(''currentPrice'', json_of_number currentPrice),
                         (''volume24h'', json_of_number
                            (js_add fl (Num 1250) (js_mul fl (Num (random env 1)) (Num 500)))),
                         (''priceChange'', json_of_number
                            (js_mul fl (js_add fl (Num (random env 2)) (js_neg (fl 0.5))) (Num 4))),
                         (''topBuyers'', JArray [JString ''Microsoft'', JString ''Google'',
                            JString ''Amazon'', JString ''Apple'']),
                         (''averageVerificationTime'', JString ''18 days'')]
                  in case read_identifier get_block_scope ''creditRates'' (creditRates fl) of
                       Inl e \<Rightarrow> Inl e
                     | Inr rates \<Rightarrow>
                         Inr \<lparr>status = 200,
                              body = JsonBody (JObject
                                [(''carbonCredit'', json_of_option json_of_carbon_credit carbonCredit),
                                 (''marketData'', marketData),
                                 (''eligiblePractices'', JArray (map (\<lambda>kv. JString (fst kv)) rates)),
                                 (''estimatedEarnings'',
                                    (case carbonCredit of
                                       None \<Rightarrow> JNumber 0
                                     | Some c \<Rightarrow>
                                         json_of_number (round_cents fl
                                           (js_mul fl (case cc_estimated_credits c of
                                                         None \<Rightarrow> Num 0 | Some x \<Rightarrow> fl x)
                                                      currentPrice))))])\<rparr>)))"

text \<open>
  The body of the \<open>try\<close>: a thrown error, or the response (none when the method is
  neither POST nor GET) with the database afterwards.
\<close>

definition credit_try ::
  "(real \<Rightarrow> number) \<Rightarrow> js_env \<Rightarrow> credit_request \<Rightarrow> database \<Rightarrow>
   js_error + (response option \<times> database)" where
  "credit_try fl env req db =
     (if cr_method req = ''POST'' then
        (case cr_json req of
           Inl e \<Rightarrow> Inl e
         | Inr r \<Rightarrow>
             (case credit_post fl env r db of
                Inl e \<Rightarrow> Inl e
              | Inr (resp, db') \<Rightarrow> Inr (Some resp, db')))
      else if cr_method req = ''GET'' then
        (case credit_get fl env (cr_farmer_id req) db of
           Inl e \<Rightarrow> Inl e
         | Inr resp \<Rightarrow> Inr (Some resp, db))
      else Inr (None, db))"

definition credit_serve ::
  "(real \<Rightarrow> number) \<Rightarrow> js_env \<Rightarrow> credit_request \<Rightarrow> database \<Rightarrow>
   response option \<times> console \<times> database" where
  "credit_serve fl env req db =
     (if cr_method req = ''OPTIONS'' then (Some \<lparr>status = 200, body = NoBody\<rparr>, [], db)
      else case credit_try fl env req db of
             Inr (resp, db') \<Rightarrow> (resp, [], db')
           | Inl e \<Rightarrow>
               (Some \<lparr>status = 500,
                      body = JsonBody (JObject [(''error'', JString (error_message e))])\<rparr>,
                [(''Error in carbon-credit-integration:'', error_message e)], db))"

section \<open>Sentinel-hub-integration handler\<close>

text \<open>
  The vendor, as the handler meets it: the OAuth token request gives a token or fails,
  and the process API gives, for a layer, its bounding box and its date, the bytes of an
  image (as base64 text) or an error.
\<close>

record vendor =
  oauth_token :: "string option"
  process_api :: "string \<Rightarrow> real list \<Rightarrow> string \<Rightarrow> js_error + string"

definition getAccessToken :: "string \<Rightarrow> string \<Rightarrow> vendor \<Rightarrow> js_error + string" where
  "getAccessToken clientId clientSecret v =
     (if clientId = [] \<or> clientSecret = [] then Inl (Error ''Sentinel Hub credentials not provided'')
      else case oauth_token v of
             None \<Rightarrow> Inl (Error ''Failed to authenticate with Sentinel Hub'')
           | Some token \<Rightarrow> Inr token)"

text \<open>
  An entry of the \<open>images\<close> object: a data URL of a fetched image, a Google Maps
  Static API URL (kept as its parameters: the centre, the API key and, for every layer
  but \<open>rgb\<close>, the marker), or an error. The colour of a marker is a colour name or,
  for a layer id that names a member of \<open>Object.prototype\<close>, the text the engine
  prints for that member.
\<close>

datatype marker = MarkerColor string | MarkerInherited string

datatype image =
    DataUrl string string
  | MapsUrl "real \<times> real" string "marker option"
  | ImageError string

text \<open>
  \<open>results[layerId] = v\<close> on an object literal: the property is added, or replaced
  where it stands. The key \<open>__proto__\<close> sets the prototype and adds no property.
\<close>

definition set_property :: "string \<Rightarrow> 'v \<Rightarrow> (string \<times> 'v) list \<Rightarrow> (string \<times> 'v) list" where
  "set_property k v obj = (if k = ''__proto__'' then obj else AList.update k v obj)"

definition image_layers :: "string list" where
  "image_layers = [''rgb'', ''ndvi'', ''moisture'', ''infrared'']"

definition default_layers :: "string list" where
  "default_layers = [''rgb'', ''ndvi'', ''moisture'', ''infrared'']"

definition fetch_layer :: "vendor \<Rightarrow> real list \<Rightarrow> string \<Rightarrow> string \<Rightarrow> image" where
  "fetch_layer v bbox imageDate layerId =
     (if layerId \<notin> set image_layers then ImageError ''Layer not found''
      else case process_api v layerId bbox imageDate of
             Inr base64 \<Rightarrow> DataUrl ''image/png'' base64
           | Inl e \<Rightarrow> ImageError (error_message e))"

text \<open>
  \<open>fetchSatelliteImages\<close> throws only when no token can be had; a layer that fails is
  an error entry.
\<close>

definition fetchSatelliteImages ::
  "string \<Rightarrow> string \<Rightarrow> vendor \<Rightarrow> real \<Rightarrow> real \<Rightarrow> string \<Rightarrow> string list \<Rightarrow>
   js_error + (string \<times> image) list" where
  "fetchSatelliteImages clientId clientSecret v latitude longitude imageDate layers =
     (case getAccessToken clientId clientSecret v of
        Inl e \<Rightarrow> Inl e
      | Inr token \<Rightarrow>
          (let bbox = [longitude - 0.005, latitude - 0.005, longitude + 0.005, latitude + 0.005]
           in Inr (fold (\<lambda>layerId results.
                           set_property layerId (fetch_layer v bbox imageDate layerId) results)
                     layers [])))"

text \<open>\<open>colors[layerId] || 'yellow'\<close> on the object literal of the three colours.\<close>

definition getLayerMarkerColor :: "string \<Rightarrow> marker" where
  "getLayerMarkerColor layerId =
     (if layerId = ''ndvi'' then MarkerColor ''green''
      else if layerId = ''moisture'' then MarkerColor ''blue''
      else if layerId = ''infrared'' then MarkerColor ''red''
      else if layerId \<in> set object_prototype_keys then MarkerInherited layerId
      else MarkerColor ''yellow'')"

definition generateMockImages ::
  "string \<Rightarrow> real \<Rightarrow> real \<Rightarrow> string \<Rightarrow> string list \<Rightarrow> (string \<times> image) list" where
  "generateMockImages googleMapsApiKey latitude longitude imageDate layers =
     (if googleMapsApiKey = [] then
        fold (\<lambda>layerId results.
                set_property layerId (ImageError ''Google Maps API key not configured'') results)
          layers []
      else
        fold (\<lambda>layerId results.
                set_property layerId
                  (MapsUrl (latitude, longitude) googleMapsApiKey
                     (if layerId \<noteq> ''rgb'' then Some (getLayerMarkerColor layerId) else None))
                  results)
          layers [])"

text \<open>
  The insight the handler returns, with the members of \<open>sentinelData\<close> that tell where
  it came from. The handler's \<open>getSatelliteInsights\<close> draws every number from
  \<open>Math.random()\<close>, in the order the object literal is written, whether or not a token
  was had.
\<close>

record satellite_insight =
  si_farmerId :: string
  si_imageDate :: string
  si_ndviScore :: real
  si_soilMoisture :: real
  si_vegetationIndex :: real
  si_recommendation :: string
  si_cloudCoverage :: real
  si_apiResponse :: bool
  si_dataSource :: string

definition generateRecommendation :: "real \<Rightarrow> string" where
  "generateRecommendation ndvi =
     (if ndvi > 0.6 then ''Excellent vegetation health detected. Continue current practices.''
      else if ndvi > 0.4 then ''Moderate vegetation health. Consider irrigation or fertilization.''
      else ''Low vegetation index detected. Immediate attention required.'')"

definition getSatelliteInsights ::
  "js_env \<Rightarrow> string \<Rightarrow> string \<Rightarrow> vendor \<Rightarrow> string \<Rightarrow> real \<Rightarrow> real \<Rightarrow> string \<Rightarrow> string \<Rightarrow>
   satellite_insight" where
  "getSatelliteInsights env clientId clientSecret v farmerId latitude longitude startDate endDate =
     (let insight = \<lparr>si_farmerId = farmerId, si_imageDate = endDate,
            si_ndviScore = 0.3 + random env 0 * 0.5,
            si_soilMoisture = 20 + random env 1 * 60,
            si_vegetationIndex = (0.3 + random env 2 * 0.5) * 100,
            si_recommendation = generateRecommendation (0.3 + random env 3 * 0.5),
            si_cloudCoverage = random env 4 * 30,
            si_apiResponse = True, si_dataSource = ''Sentinel Hub API''\<rparr>
      in case getAccessToken clientId clientSecret v of
           Inr token \<Rightarrow> insight
         | Inl e \<Rightarrow> insight\<lparr>si_apiResponse := False, si_dataSource := ''Mock Data (API Error)''\<rparr>)"

text \<open>
  The parsed body of a request, with the members the handler reads; a member that is
  absent is \<open>None\<close>, and the three credentials are already defaulted to the empty
  string (\<open>|| ''\<close>). \<open>sr_json\<close> is what \<open>await req.json()\<close> gives; reading
  \<open>credentials\<close> of a body that is \<open>null\<close> throws as well. The console of this
  handler holds the lines that the \<open>catch\<close> blocks of the handler itself write; the
  service class logs its own failures besides.
\<close>

record sentinel_body =
  sb_action :: "string option"
  sb_clientId :: string
  sb_clientSecret :: string
  sb_googleMapsApiKey :: string
  sb_farmerId :: "string option"
  sb_latitude :: "real option"
  sb_longitude :: "real option"
  sb_imageDate :: "string option"
  sb_layers :: "string list option"
  sb_startDate :: "string option"
  sb_endDate :: "string option"

record sentinel_request =
  sr_method :: string
  sr_json :: "js_error + sentinel_body"

text \<open>\<open>!x\<close> for an optional string and an optional number.\<close>

fun missing_text :: "string option \<Rightarrow> bool" where
  "missing_text None = True"
| "missing_text (Some s) = (s = [])"

fun missing_number :: "real option \<Rightarrow> bool" where
  "missing_number None = True"
| "missing_number (Some x) = (x = 0)"

datatype sentinel_reply =
    Plain json
  | Images bool "(string \<times> image) list" string
  | Insight satellite_insight

record sentinel_response =
  s_status :: nat
  s_body :: "sentinel_reply option"

text \<open>The branch for \<open>action === 'fetch-images'\<close>.\<close>

definition fetch_images :: "vendor \<Rightarrow> sentinel_body \<Rightarrow> sentinel_response \<times> console" where
  "fetch_images v b =
     (if missing_text (sb_farmerId b) \<or> missing_number (sb_latitude b)
         \<or> missing_number (sb_longitude b) \<or> missing_text (sb_imageDate b)
      then (\<lparr>s_status = 400,
             s_body = Some (Plain (JObject [(''success'', JBool False),
                        (''error'', JString ''Missing required parameters for image fetching'')]))\<rparr>,
            [])
      else
        (let latitude = (case sb_latitude b of Some x \<Rightarrow> x | None \<Rightarrow> 0);
             longitude = (case sb_longitude b of Some x \<Rightarrow> x | None \<Rightarrow> 0);
             imageDate = (case sb_imageDate b of Some d \<Rightarrow> d | None \<Rightarrow> []);
             layers = (case sb_layers b of Some ls \<Rightarrow> ls | None \<Rightarrow> default_layers);
             configured = (sb_clientId b \<noteq> [] \<and> sb_clientSecret b \<noteq> []);
             mock = generateMockImages (sb_googleMapsApiKey b) latitude longitude imageDate layers;
             fetched =
               (if configured then
                  (case fetchSatelliteImages (sb_clientId b) (sb_clientSecret b) v
                          latitude longitude imageDate layers of
                     Inr images \<Rightarrow> (images, [])
                   | Inl e \<Rightarrow>
                       (mock, [(''Failed to fetch real images, using Google Maps mock:'',
                                error_message e)]))
                else (mock, []))
         in (\<lparr>s_status = 200,
               s_body = Some (Images True (fst fetched)
                          (if configured then ''sentinel-hub'' else ''google-maps-mock''))\<rparr>,
             snd fetched)))"

definition sentinel_try ::
  "js_env \<Rightarrow> vendor \<Rightarrow> sentinel_request \<Rightarrow> js_error + (sentinel_response \<times> console)" where
  "sentinel_try env v req =
     (if sr_method req = ''OPTIONS'' then Inr (\<lparr>s_status = 200, s_body = None\<rparr>, [])
      else if sr_method req \<noteq> ''POST'' then
        Inr (\<lparr>s_status = 405,
              s_body = Some (Plain (JObject [(''error'', JString ''Method not allowed'')]))\<rparr>, [])
      else
        (case sr_json req of
           Inl e \<Rightarrow> Inl e
         | Inr b \<Rightarrow>
             if sb_action b = Some ''test-connection'' then
               Inr (\<lparr>s_status = 200,
                     s_body = Some (Plain
                       (if sb_clientId b = [] \<or> sb_clientSecret b = [] then
                          JObject [(''success'', JBool False),
                            (''message'', JString
                               ''Sentinel Hub credentials not provided. Please configure them in Settings.'')]
                        else case getAccessToken (sb_clientId b) (sb_clientSecret b) v of
                               Inr token \<Rightarrow>
                                 JObject [(''success'', JBool True),
                                   (''message'', JString ''Successfully connected to Sentinel Hub API'')]
                             | Inl e \<Rightarrow>
                                 JObject [(''success'', JBool False),
                                   (''message'', JString (''Failed to connect to Sentinel Hub: ''
                                      @ error_message e))]))\<rparr>, [])
             else if sb_action b = Some ''fetch-images'' then Inr (fetch_images v b)
             else if missing_text (sb_farmerId b) \<or> missing_number (sb_latitude b)
                     \<or> missing_number (sb_longitude b) \<or> missing_text (sb_startDate b)
                     \<or> missing_text (sb_endDate b)
               then Inr (\<lparr>s_status = 400,
                          s_body = Some (Plain (JObject
                            [(''error'', JString ''Missing required parameters'')]))\<rparr>, [])
             else
               (let insights = getSatelliteInsights env (sb_clientId b) (sb_clientSecret b) v
                          (case sb_farmerId b of Some x \<Rightarrow> x | None \<Rightarrow> [])
                          (case sb_latitude b of Some x \<Rightarrow> x | None \<Rightarrow> 0)
                          (case sb_longitude b of Some x \<Rightarrow> x | None \<Rightarrow> 0)
                          (case sb_startDate b of Some x \<Rightarrow> x | None \<Rightarrow> [])
                          (case sb_endDate b of Some x \<Rightarrow> x | None \<Rightarrow> [])
                in Inr (\<lparr>s_status = 200, s_body = Some (Insight insights)\<rparr>, []))))"

definition sentinel_serve ::
  "js_env \<Rightarrow> vendor \<Rightarrow> sentinel_request \<Rightarrow> sentinel_response \<times> console" where
  "sentinel_serve env v req =
     (case sentinel_try env v req of
        Inr r \<Rightarrow> r
      | Inl e \<Rightarrow>
          (\<lparr>s_status = 500,
            s_body = Some (Plain (JObject [(''error'', JString ''Internal server error''),
                       (''message'', JString (error_message e))]))\<rparr>,
           [(''Error in sentinel-hub-integration function:'', error_message e)]))"

section \<open>Dashboard satellite service\<close>

text \<open>
  What the dashboard's service takes from the JavaScript engine it runs on:
  \<open>Math.sin\<close>, and \<open>new Date(date).getMonth()\<close> (the month, 0 to 11, of a date
  text in the local time zone; \<open>None\<close> stands for the NaN of a text that is no date).
  The month of the moment of the call, \<open>new Date().getMonth()\<close>, is passed apart as
  \<open>clock_month\<close>.
\<close>

record js_runtime =
  Math_sin :: "real \<Rightarrow> real"
  getMonth :: "string \<Rightarrow> nat option"

record field_boundary =
  field_name :: string
  fb_latitude :: real
  fb_longitude :: real
  bounding_box :: "real list list option"

text \<open>
  \<open>hashCode\<close>: \<open>hash = ((hash << 5) - hash) + char; hash = hash & hash\<close> keeps
  the hash a signed 32-bit integer, and the result is its absolute value.
\<close>

definition hashCode :: "string \<Rightarrow> int" where
  "hashCode str =
     \<bar>sint (fold (\<lambda>c hash. push_bit 5 hash - hash + of_nat (of_char c)) str (0 :: 32 word))\<bar>"

text \<open>
  \<open>seededRandom\<close>: the closure holds \<open>x\<close>, first \<open>Math.sin(seed) * 10000\<close>; each
  call replaces it by \<open>Math.sin(x) * 10000\<close> and returns its fractional part. The
  state is passed explicitly: \<open>next_random\<close> gives the value drawn and the new \<open>x\<close>.
\<close>

definition seededRandom :: "js_runtime \<Rightarrow> int \<Rightarrow> real" where
  "seededRandom rt seed = Math_sin rt (of_int seed) * 10000"

definition next_random :: "js_runtime \<Rightarrow> real \<Rightarrow> real \<times> real" where
  "next_random rt x = (let x' = Math_sin rt x * 10000 in (x' - of_int \<lfloor>x'\<rfloor>, x'))"

text \<open>Comparisons with a month that may be NaN: every comparison with NaN is false.\<close>

fun month_ge :: "nat option \<Rightarrow> nat \<Rightarrow> bool" where
  "month_ge None k = False"
| "month_ge (Some m) k = (m \<ge> k)"

fun month_le :: "nat option \<Rightarrow> nat \<Rightarrow> bool" where
  "month_le None k = False"
| "month_le (Some m) k = (m \<le> k)"

definition getSeasonalFactor :: "nat option \<Rightarrow> real \<Rightarrow> real" where
  "getSeasonalFactor month latitude =
     (if latitude \<ge> 0 then (if month_ge month 3 \<and> month_le month 8 then 0.8 else 0.5)
      else (if month_ge month 9 \<or> month_le month 2 then 0.8 else 0.5))"

definition getClimateFactor :: "real \<Rightarrow> real \<Rightarrow> real" where
  "getClimateFactor latitude longitude =
     (let absLat = \<bar>latitude\<bar>
      in if absLat \<le> 23.5 then 0.9
         else if absLat \<le> 35 then 0.8
         else if absLat \<le> 60 then 0.7
         else 0.4)"

definition getClimateZone :: "real \<Rightarrow> real \<Rightarrow> string" where
  "getClimateZone latitude longitude =
     (let absLat = \<bar>latitude\<bar>
      in if absLat \<le> 23.5 then ''Tropical''
         else if absLat \<le> 35 then ''Subtropical''
         else if absLat \<le> 60 then ''Temperate''
         else ''Polar'')"

definition getSeason :: "nat option \<Rightarrow> real \<Rightarrow> string" where
  "getSeason month latitude =
     (if latitude \<ge> 0 then
        (if month_ge month 3 \<and> month_le month 5 then ''Spring''
         else if month_ge month 6 \<and> month_le month 8 then ''Summer''
         else if month_ge month 9 \<and> month_le month 11 then ''Fall''
         else ''Winter'')
      else
        (if month_ge month 9 \<or> month_le month 2 then ''Summer''
         else if month_ge month 3 \<and> month_le month 5 then ''Fall''
         else if month_ge month 6 \<and> month_le month 8 then ''Winter''
         else ''Spring''))"

text \<open>A count printed in a template string.\<close>

fun show_nat :: "nat \<Rightarrow> string" where
  "show_nat n =
     (if n < 10 then [char_of (48 + n)] else show_nat (n div 10) @ [char_of (48 + n mod 10)])"

declare show_nat.simps [simp del]

text \<open>\<open>fieldBoundaries?.length || 1\<close>.\<close>

definition fieldCount_of :: "field_boundary list option \<Rightarrow> nat" where
  "fieldCount_of fieldBoundaries =
     (case fieldBoundaries of
        None \<Rightarrow> 1
      | Some fs \<Rightarrow> if length fs = 0 then 1 else length fs)"

text \<open>
  \<open>generateEnhancedRecommendation\<close>. The season it names is the season of the moment
  of the call (\<open>new Date().getMonth()\<close>), not of the date of the insight.
\<close>

definition generateEnhancedRecommendation ::
  "nat \<Rightarrow> real \<Rightarrow> real \<Rightarrow> real \<Rightarrow> real \<Rightarrow> field_boundary list option \<Rightarrow> string" where
  "generateEnhancedRecommendation clock_month ndvi soilMoisture latitude longitude fieldBoundaries =
     (let climateZone = getClimateZone latitude longitude;
          season = getSeason (Some clock_month) latitude;
          fieldCount = fieldCount_of fieldBoundaries;
          hasMultipleFields = (fieldCount > 1);
          r0 = (if hasMultipleFields
                then ''Multi-field analysis ('' @ show_nat fieldCount @ '' fields mapped): ''
                else []);
          r1 =
            (if ndvi > 0.7 \<and> soilMoisture > 60 then
               r0 @ ''Excellent crop health detected across ''
                  @ (if hasMultipleFields then ''all fields'' else ''the field'') @ '' in ''
                  @ toLowerCase climateZone @ '' '' @ toLowerCase season @ '' conditions. ''
                  @ (if hasMultipleFields
                     then ''Continue current field rotation practices and monitor for optimal harvest timing across fields. ''
                     else ''Continue current practices and consider harvest timing optimization. '')
                  @ ''Field-specific monitoring recommended for the next 2-3 weeks.''
             else if ndvi > 0.6 \<and> soilMoisture > 50 then
               r0 @ ''Good vegetation health observed for '' @ toLowerCase season @ '' season. ''
                  @ (if hasMultipleFields
                     then ''Maintain current irrigation schedule and consider field-specific fertilization based on individual field performance. ''
                     else ''Maintain current irrigation schedule and monitor crop development. '')
                  @ ''Consider precision agriculture techniques for optimization.''
             else if ndvi > 0.4 \<and> soilMoisture > 40 then
               r0 @ ''Moderate vegetation health in '' @ toLowerCase climateZone @ '' zone. ''
                  @ (if hasMultipleFields
                     then ''Field-specific analysis shows variation - prioritize irrigation and fertilization for underperforming fields. ''
                     else ''Consider increasing irrigation frequency and check for nutrient deficiencies. '')
                  @ ''Soil testing recommended for targeted interventions.''
             else if ndvi > 0.3 \<and> soilMoisture < 30 then
               r0 @ ''Low soil moisture detected during '' @ toLowerCase season @ '' season. ''
                  @ (if hasMultipleFields
                     then ''Immediate field-specific irrigation recommended - prioritize most critical fields first. ''
                     else ''Immediate irrigation recommended to prevent crop stress. '')
                  @ ''Consider drought-resistant varieties for future planting cycles.''
             else if ndvi < 0.3 then
               r0 @ ''Poor vegetation index detected in '' @ toLowerCase climateZone @ '' conditions. ''
                  @ (if hasMultipleFields
                     then ''Urgent field-by-field assessment required - investigate potential causes across all mapped areas. ''
                     else ''Investigate potential causes: pests, disease, or severe nutrient deficiency. '')
                  @ ''Consult agricultural extension services for immediate intervention.''
             else
               r0 @ ''Mixed conditions detected for '' @ toLowerCase season @ '' ''
                  @ toLowerCase climateZone @ '' farming. ''
                  @ (if hasMultipleFields
                     then ''Field-specific interventions recommended based on individual field performance data. ''
                     else ''Consider targeted interventions based on field observations. '')
                  @ ''Enhanced monitoring recommended over the next 1-2 weeks.'');
          r2 = (if hasMultipleFields
                then r1 @ '' Field management advantage: Multiple mapped fields enable precision agriculture and optimized resource allocation.''
                else r1)
      in if climateZone = ''Tropical'' \<and> soilMoisture > 70
           then r2 @ '' Monitor for fungal diseases in high humidity conditions.''
         else if climateZone = ''Arid'' \<and> soilMoisture < 40
           then r2 @ '' Water conservation techniques strongly recommended.''
         else r2)"

text \<open>
  \<open>generateEnhancedMockData\<close>. Of \<open>sentinelData\<close> the record keeps the cloud coverage
  (the third draw), \<open>apiResponse\<close> and \<open>dataSource\<close>; its other members are
  functions of the arguments and of the fourth draw.
\<close>

definition round_to :: "real \<Rightarrow> real \<Rightarrow> real" where
  "round_to k x = of_int \<lfloor>x * k + 1 / 2\<rfloor> / k"

definition generateEnhancedMockData ::
  "js_runtime \<Rightarrow> nat \<Rightarrow> string \<Rightarrow> real \<Rightarrow> real \<Rightarrow> string \<Rightarrow> field_boundary list option \<Rightarrow>
   satellite_insight" where
  "generateEnhancedMockData rt clock_month farmerId latitude longitude date fieldBoundaries =
     (let seed = hashCode (farmerId @ date);
          x0 = seededRandom rt seed;
          fieldCount = fieldCount_of fieldBoundaries;
          hasMultipleFields = (fieldCount > 1);
          latitudeFactor = max 0.3 (1 - \<bar>latitude\<bar> / 90);
          fieldDiversityBonus = (if hasMultipleFields then 0.05 else 0);
          month = getMonth rt date;
          seasonalFactor = getSeasonalFactor month latitude;
          climateFactor = getClimateFactor latitude longitude;
          managementFactor = (if hasMultipleFields then 1.1 else 1.0);
          baseNDVI = latitudeFactor * seasonalFactor * climateFactor * managementFactor
                     + fieldDiversityBonus;
          d1 = next_random rt x0;
          ndviVariation = (fst d1 - 0.5) * 0.15;
          ndviScore = max 0.1 (min 0.9 (baseNDVI + ndviVariation));
          baseMoisture = ndviScore * 55 + 25;
          d2 = next_random rt (snd d1);
          fieldVariation = (if hasMultipleFields then (fst d2 - 0.5) * 15 else (fst d2 - 0.5) * 20);
          soilMoisture = max 15 (min 85 (baseMoisture + fieldVariation));
          vegetationIndex = ndviScore * 95 + (if hasMultipleFields then 5 else 0);
          recommendation = generateEnhancedRecommendation clock_month ndviScore soilMoisture
                             latitude longitude fieldBoundaries;
          d3 = next_random rt (snd d2)
      in \<lparr>si_farmerId = farmerId, si_imageDate = date,
          si_ndviScore = round_to 1000 ndviScore,
          si_soilMoisture = round_to 10 soilMoisture,
          si_vegetationIndex = round_to 10 vegetationIndex,
          si_recommendation = recommendation,
          si_cloudCoverage = of_int \<lfloor>fst d3 * 25 + 1 / 2\<rfloor>,
          si_apiResponse = False, si_dataSource = ''Enhanced Mock Data''\<rparr>)"

text \<open>
  The dashboard's \<open>getSatelliteInsights\<close>. \<open>hasCredentials\<close> is what
  \<open>loadCredentials\<close> found; \<open>reachable\<close> says whether the POST to the
  sentinel-hub-integration function is answered in time. The POST carries the client id
  and secret as \<open>credentials.clientId\<close> and \<open>credentials.clientSecret\<close>, where the
  function reads \<open>credentials.sentinelHub\<close>, so the function sees no credentials. An
  answer that is not a 200 makes the HTTP client throw; every failure ends in the mock.
\<close>

definition dashboard_post :: "string \<Rightarrow> real \<Rightarrow> real \<Rightarrow> string \<Rightarrow> string \<Rightarrow> sentinel_request" where
  "dashboard_post farmerId latitude longitude startDate endDate =
     \<lparr>sr_method = ''POST'',
      sr_json = Inr \<lparr>sb_action = None, sb_clientId = [], sb_clientSecret = [],
                  sb_googleMapsApiKey = [], sb_farmerId = Some farmerId,
                  sb_latitude = Some latitude, sb_longitude = Some longitude,
                  sb_imageDate = None, sb_layers = None,
                  sb_startDate = Some startDate, sb_endDate = Some endDate\<rparr>\<rparr>"

definition dashboard_getSatelliteInsights ::
  "js_runtime \<Rightarrow> nat \<Rightarrow> js_env \<Rightarrow> vendor \<Rightarrow> bool \<Rightarrow> bool \<Rightarrow>
   string \<Rightarrow> real \<Rightarrow> real \<Rightarrow> string \<Rightarrow> string \<Rightarrow> field_boundary list option \<Rightarrow> satellite_insight" where
  "dashboard_getSatelliteInsights rt clock_month env v hasCredentials reachable
       farmerId latitude longitude startDate endDate fieldBoundaries =
     (let mockData = generateEnhancedMockData rt clock_month farmerId latitude longitude endDate
                       fieldBoundaries
      in if hasCredentials \<and> reachable then
           (let answer = fst (sentinel_serve env v
                               (dashboard_post farmerId latitude longitude startDate endDate))
            in if s_status answer = 200 then
                 (case s_body answer of
                    Some (Insight i) \<Rightarrow>
                      if si_farmerId i \<noteq> []
                      then i\<lparr>si_dataSource := ''Sentinel Hub API'', si_apiResponse := True\<rparr>
                      else mockData
                  | _ \<Rightarrow> mockData)
               else mockData)
         else mockData)"

text \<open>
  \<open>getMonth\<close> of the V8 engine in the time zone UTC, for a date text of the form
  \<open>YYYY-MM-DD\<close>, the form in which the dashboard passes its dates
  (\<open>toISOString().split('T')[0]\<close>). The month must be 01 to 12 and the day 01 to 31,
  or the text is no date (NaN); a day that the month does not have counts on into the
  next month. Only this form of date text is modelled: a text of another form is given
  \<open>None\<close> here, whatever the engine makes of it.
\<close>

definition leap_year :: "nat \<Rightarrow> bool" where
  "leap_year y = (y mod 4 = 0 \<and> (y mod 100 \<noteq> 0 \<or> y mod 400 = 0))"

definition days_in_month :: "nat \<Rightarrow> nat \<Rightarrow> nat" where
  "days_in_month y m =
     (if m = 2 then (if leap_year y then 29 else 28)
      else if m = 4 \<or> m = 6 \<or> m = 9 \<or> m = 11 then 30
      else 31)"

definition utc_getMonth :: "string \<Rightarrow> nat option" where
  "utc_getMonth d =
     (if length d \<noteq> 10 \<or> d ! 4 \<noteq> CHR ''-'' \<or> d ! 7 \<noteq> CHR ''-'' then None
      else case (nat_of_digits 0 (take 4 d), nat_of_digits 0 (take 2 (drop 5 d)),
                 nat_of_digits 0 (drop 8 d)) of
             (Some y, Some m, Some day) \<Rightarrow>
               if 1 \<le> m \<and> m \<le> 12 \<and> 1 \<le> day \<and> day \<le> 31
               then Some (if day \<le> days_in_month y m then m - 1 else m) else None
           | _ \<Rightarrow> None)"

definition real_runtime :: js_runtime where
  "real_runtime = \<lparr>Math_sin = sin, getMonth = utc_getMonth\<rparr>"

section \<open>Example data\<close>

definition example_farmer :: farmer where
  "example_farmer =
     \<lparr>f_id = 1, f_phone_number = ''254700000001'', f_full_name = Some ''Amina'',
      f_location_name = None, f_latitude = None, f_longitude = None,
      f_preferred_language = Some ''English'', f_crop = None\<rparr>"


definition example_located_insert :: farmer_insert where
  "example_located_insert =
     no_farmer_columns\<lparr>fi_phone_number := Value ''254700000003'', fi_full_name := Value ''Baraka'',
       fi_latitude := Value 1.23456789, fi_longitude := Value 36.8\<rparr>"

definition example_located_farmer :: farmer where
  "example_located_farmer =
     \<lparr>f_id = 2, f_phone_number = ''254700000003'', f_full_name = Some ''Baraka'',
      f_location_name = None, f_latitude = Some 1.234568, f_longitude = Some 36.8,
      f_preferred_language = Some ''English'', f_crop = None\<rparr>"

definition example_message :: wa_message where
  "example_message = \<lparr>m_from = ''254700000002'', m_text_body = Some ''MENU''\<rparr>"

definition example_database :: database where
  "example_database =
     \<lparr>farmers = [example_farmer], ivr_calls = [], carbon_credits = [], api_credentials = []\<rparr>"


definition example_env :: js_env where
  "example_env = \<lparr>random = (\<lambda>k. 0), today = ''2025-06-17'', date_now = ''1750150000000''\<rparr>"

definition example_vendor_down :: vendor where
  "example_vendor_down = \<lparr>oauth_token = None,
     process_api = (\<lambda>layer bbox date. Inl (Error ''HTTP 503: Service Unavailable''))\<rparr>"

definition example_get :: credit_request where
  "example_get = \<lparr>cr_method = ''GET'', cr_farmer_id = Some ''1'',
     cr_json = Inl (SyntaxError ''Unexpected end of JSON input'')\<rparr>"

definition example_post :: carbon_credit_request where
  "example_post =
     \<lparr>r_farmerId = ''1'', r_practices = [''constructor''], r_acreage = Num 10, r_cropType = ''corn''\<rparr>"




definition example_fetch_images :: "string \<Rightarrow> sentinel_body" where
  "example_fetch_images googleMapsApiKey =
     \<lparr>sb_action = Some ''fetch-images'', sb_clientId = ''client-id'',
      sb_clientSecret = ''client-secret'', sb_googleMapsApiKey = googleMapsApiKey,
      sb_farmerId = Some ''1'', sb_latitude = Some 1, sb_longitude = Some 36.8,
      sb_imageDate = Some ''2024-06-15'', sb_layers = Some [''rgb'', ''ndvi''],
      sb_startDate = None, sb_endDate = None\<rparr>"

section \<open>Verified properties\<close>

subsection \<open>Carbon-credit calculator\<close>

text \<open>
  In exact arithmetic (\<open>fl\<close> rounds nothing) and away from the member names of
  \<open>Object.prototype\<close>, both calculations return the documented value: the dashboard's
  function and the column the POST branch writes. With the rounding of doubles the two
  can differ from it in the last cent.
\<close>

lemma add_practice_exact:
  "p \<notin> set object_prototype_keys \<Longrightarrow>
   add_practice Num (Num a) p (Num s) = Num (s + documented_rate p * a)"
  by (simp add: add_practice_def get_prop_def creditRates_def documented_rate_def)

lemma multiplier_exact:
  "toLowerCase c \<notin> set object_prototype_keys \<Longrightarrow>
   or_default (get_prop (cropMultipliers Num) (toLowerCase c)) (Num 1)
     = Num (documented_multiplier c)"
  by (simp add: get_prop_def cropMultipliers_def documented_multiplier_def Let_def)

lemma fold_add_practice_exact:
  "set ps \<inter> set object_prototype_keys = {} \<Longrightarrow>
   fold (add_practice Num (Num a)) ps (Num s) = Num (s + sum_list (map documented_rate ps) * a)"
proof (induction ps arbitrary: s)
  case Nil
  show ?case by simp
next
  case (Cons p ps)
  from Cons.prems have p: "p \<notin> set object_prototype_keys"
    and ps: "set ps \<inter> set object_prototype_keys = {}" by auto
  show ?case
    by (simp add: add_practice_exact [OF p] Cons.IH [OF ps] algebra_simps)
qed

lemma calculateEstimatedCredits_exact:
  assumes "set ps \<inter> set object_prototype_keys = {}"
    and "toLowerCase c \<notin> set object_prototype_keys"
  shows "calculateEstimatedCredits Num ps (Num a) c = Num (documented_credits ps a c)"
  using assms
  by (simp add: calculateEstimatedCredits_def fold_add_practice_exact multiplier_exact
      documented_credits_def round2_def del: or_default.simps)

lemma post_estimated_credits_exact:
  assumes "set ps \<inter> set object_prototype_keys = {}"
    and "toLowerCase c \<notin> set object_prototype_keys"
  shows "post_estimated_credits_column Num ps (Num a) c = Num (documented_credits ps a c)"
  using assms
  by (simp add: post_estimated_credits_column_def post_estimatedCredits_def
      fold_add_practice_exact multiplier_exact documented_credits_def round2_def
      del: or_default.simps)

text \<open>
  Whatever the rounding, an inherited member name turns the total, and with it the
  result, into NaN.
\<close>

lemma add_practice_inherited:
  "p \<in> set object_prototype_keys \<Longrightarrow> add_practice fl acreage p estimatedCredits = NaN"
proof -
  assume p: "p \<in> set object_prototype_keys"
  have "map_of (creditRates fl) p = None"
    using p by (auto simp: creditRates_def object_prototype_keys_def)
  then have "or_default (get_prop (creditRates fl) p) (fl 0.1) = NaN"
    using p by (simp add: get_prop_def)
  then show ?thesis
    by (cases estimatedCredits) (simp_all add: add_practice_def)
qed

text \<open>
  A POST of the practice \<open>constructor\<close> for the farmer of the example database is
  answered with the new row, whose \<open>estimated_credits\<close> is NULL: the NaN of the
  estimate is printed as \<open>null\<close>. The price of the example is 15, which no rounding
  changes.
\<close>

lemma post_stores_no_estimate:
  "map_sum id (\<lambda>(r, d). map cc_estimated_credits (carbon_credits d))
     (credit_post Num example_env example_post example_database) = Inr [None]"
  by (simp add: credit_post_def example_post_def example_env_def example_database_def
      example_farmer_def post_estimatedCredits_def add_practice_def get_prop_def creditRates_def
      object_prototype_keys_def uuid_of_text_def digit_value_def round_cents_def
      insert_carbon_credit_def credit_numerics_def round_decimals_def no_credit_columns_def
      verification_statuses_def gen_random_uuid_def Let_def)

text \<open>
  C1. The claim gives every unlisted practice the rate 0.1. The practice
  \<open>constructor\<close> is not listed, so ten acres of corn are documented at 1 credit; the
  lookup \<open>creditRates[practice]\<close> finds the inherited \<open>Object.prototype.constructor\<close>,
  which is truthy, and both the dashboard's function and the POST branch compute NaN,
  whatever the rounding of the engine.
\<close>

theorem inherited_practice_name_gives_NaN:
  "calculateEstimatedCredits fl [''constructor''] (Num 10) ''corn'' = NaN \<and>
   post_estimated_credits_column fl [''constructor''] (Num 10) ''corn'' = NaN \<and>
   documented_credits [''constructor''] 10 ''corn'' = 1"
proof -
  have c: "''constructor'' \<in> set object_prototype_keys"
    by (simp add: object_prototype_keys_def)
  have total: "fold (add_practice fl (Num 10)) [''constructor''] (Num 0) = NaN"
    by (simp add: add_practice_inherited [OF c])
  have "documented_credits [''constructor''] 10 ''corn'' = 1"
    by (simp add: documented_credits_def documented_rate_def documented_multiplier_def
        round2_def toLowerCase_def lower_char_def)
  then show ?thesis
    by (simp only: calculateEstimatedCredits_def post_estimated_credits_column_def
        post_estimatedCredits_def Let_def total js_mul.simps Math_round.simps js_div.simps
        simp_thms)
qed

subsection \<open>Schema constraints\<close>

lemma fold_max_ge: "x \<in> set xs \<Longrightarrow> x \<le> fold max xs (m::nat)"
proof (induction xs arbitrary: m)
  case Nil
  then show ?case by simp
next
  case (Cons y ys)
  have mono: "m \<le> fold max ys m" for m :: nat
    by (induction ys arbitrary: m) (auto intro: order_trans [OF max.cobounded2])
  show ?case
  proof (cases "x = y")
    case True
    have "y \<le> max y m" by simp
    also have "\<dots> \<le> fold max ys (max y m)" by (rule mono)
    finally show ?thesis using True by simp
  next
    case False
    with Cons.prems have "x \<in> set ys" by simp
    then show ?thesis using Cons.IH by simp
  qed
qed

lemma gen_random_uuid_fresh: "gen_random_uuid used \<notin> set used"
proof
  assume "gen_random_uuid used \<in> set used"
  then have "gen_random_uuid used \<le> fold max used 0" by (rule fold_max_ge)
  then show False by (simp add: gen_random_uuid_def)
qed

lemma update_row_checked:
  "update_carbon_credit_row u fs r = Inr r' \<Longrightarrow> verification_status_checked r'"
  by (auto simp: update_carbon_credit_row_def Let_def verification_status_checked_def
      verification_statuses_def split: option.splits if_splits sum.splits prod.splits
      elim!: check_in.elims)

lemma update_rows_checked:
  "list_all verification_status_checked tbl \<Longrightarrow>
   update_carbon_credit_rows fid u fs tbl = Inr tbl' \<Longrightarrow>
   list_all verification_status_checked tbl'"
proof (induction tbl arbitrary: tbl')
  case Nil
  then show ?case by simp
next
  case (Cons r rs)
  then show ?case
    by (auto split: if_splits sum.splits dest: update_row_checked)
qed

lemma insert_checked:
  "list_all verification_status_checked tbl \<Longrightarrow>
   list_all verification_status_checked (snd (insert_carbon_credit p fs tbl))"
  by (auto simp: insert_carbon_credit_def Let_def verification_status_checked_def
      verification_statuses_def split: option.splits if_splits sum.splits prod.splits
      elim!: check_in.elims)

lemma exec_checked:
  "list_all verification_status_checked tbl \<Longrightarrow>
   list_all verification_status_checked (exec_carbon_credit fs stmt tbl)"
proof (cases stmt)
  case (InsertCredit p)
  assume "list_all verification_status_checked tbl"
  then show ?thesis using InsertCredit by (simp add: insert_checked)
next
  case (UpdateCredit fid u)
  assume "list_all verification_status_checked tbl"
  then show ?thesis using UpdateCredit
    by (auto simp: update_carbon_credits_def split: sum.splits dest: update_rows_checked)
qed

lemma fold_exec_checked:
  "list_all verification_status_checked tbl \<Longrightarrow>
   list_all verification_status_checked (fold (exec_carbon_credit fs) stmts tbl)"
  by (induction stmts arbitrary: tbl) (simp_all add: exec_checked)

text \<open>
  C4, as the schema has it. After any sequence of inserts and updates every row of
  \<open>carbon_credits\<close> has a \<open>verification_status\<close> that is NULL, pending, verified or
  rejected. The column \<open>call_status\<close> of \<open>ivr_calls\<close> has no check constraint: an
  insert that names any text at all as \<open>call_status\<close> stores it.
\<close>

theorem stored_status_constraints:
  "list_all verification_status_checked (carbon_credits_after fs stmts) \<and>
   (\<exists>row. fst (insert_ivr_call (no_call_columns\<lparr>ci_call_status := Value s\<rparr>) fs tbl) = Inr row
      \<and> c_call_status row = Some s)"
  using gen_random_uuid_fresh [of "map c_id tbl"]
  by (simp add: carbon_credits_after_def fold_exec_checked insert_ivr_call_def
      no_call_columns_def call_types_def Let_def)

text \<open>
  C4 as stated fails: no finite set of values holds the \<open>call_status\<close> of every row
  that \<open>ivr_calls\<close> accepts.
\<close>

theorem call_status_unconstrained:
  "\<not> (\<exists>S. finite S \<and>
        (\<forall>p fs tbl row. fst (insert_ivr_call p fs tbl) = Inr row
           \<longrightarrow> c_call_status row \<in> Some ` S))"
proof
  assume "\<exists>S. finite S \<and>
        (\<forall>p fs tbl row. fst (insert_ivr_call p fs tbl) = Inr row
           \<longrightarrow> c_call_status row \<in> Some ` S)"
  then obtain S :: "string set" where fin: "finite S" and
    all: "\<And>p fs tbl row. fst (insert_ivr_call p fs tbl) = Inr row
            \<Longrightarrow> c_call_status row \<in> Some ` S"
    by blast
  have "infinite (UNIV :: string set)" by (rule infinite_UNIV_listI)
  with fin obtain s where s: "s \<notin> S" using ex_new_if_finite by blast
  have "\<exists>row. fst (insert_ivr_call (no_call_columns\<lparr>ci_call_status := Value s\<rparr>) [] []) = Inr row
      \<and> c_call_status row = Some s"
    by (simp add: insert_ivr_call_def no_call_columns_def call_types_def gen_random_uuid_def
        Let_def)
  with all s show False by fastforce
qed



text \<open>
  C7, as the table has it. When an insert into \<open>farmers\<close> succeeds, looking farmers up
  by the phone number of the insert returns exactly the stored row, and a lookup by any
  other phone number is as it was before. The stored row holds what the insert gave: the
  phone number, the name, the location name and the crop as given (NULL when not named),
  the language as given or \<open>English\<close>, the \<open>id\<close> as given or generated, and the
  latitude and longitude rounded to six decimals.
\<close>

theorem farmer_insert_lookup_roundtrip:
  assumes "insert_farmer p tbl = (Inr row, tbl')"
  shows "select_farmer_by_phone (f_phone_number row) tbl' = Some row \<and>
         (\<forall>q. q \<noteq> f_phone_number row \<longrightarrow>
            select_farmer_by_phone q tbl' = select_farmer_by_phone q tbl) \<and>
         fi_phone_number p = Value (f_phone_number row) \<and>
         column_or (Some (gen_random_uuid (map f_id tbl))) (fi_id p) = Some (f_id row) \<and>
         f_full_name row = column_or None (fi_full_name p) \<and>
         f_location_name row = column_or None (fi_location_name p) \<and>
         f_latitude row = map_option (round_decimals 6) (column_or None (fi_latitude p)) \<and>
         f_longitude row = map_option (round_decimals 6) (column_or None (fi_longitude p)) \<and>
         f_preferred_language row = column_or (Some ''English'') (fi_preferred_language p) \<and>
         f_crop row = column_or None (fi_crop p)"
proof -
  have num: "numeric_value 9 6 n c = Inr v \<Longrightarrow> v = map_option (round_decimals 6) c" for n c v
    by (cases c) (auto split: if_splits)
  from assms obtain i ph lat lon where
    lat: "numeric_value 9 6 ''latitude'' (column_or None (fi_latitude p)) = Inr lat" and
    lon: "numeric_value 9 6 ''longitude'' (column_or None (fi_longitude p)) = Inr lon" and
    i: "column_or (Some (gen_random_uuid (map f_id tbl))) (fi_id p) = Some i" and
    ph: "column_or None (fi_phone_number p) = Some ph" and
    new: "ph \<notin> set (map f_phone_number tbl)" and
    row: "row = \<lparr>f_id = i, f_phone_number = ph,
                 f_full_name = column_or None (fi_full_name p),
                 f_location_name = column_or None (fi_location_name p),
                 f_latitude = lat, f_longitude = lon,
                 f_preferred_language = column_or (Some ''English'') (fi_preferred_language p),
                 f_crop = column_or None (fi_crop p)\<rparr>" and
    tbl': "tbl' = tbl @ [row]"
    by (auto simp: insert_farmer_def Let_def split: sum.splits option.splits if_splits)
  have phone: "f_phone_number row = ph" by (simp add: row)
  from new have none: "filter (\<lambda>r. f_phone_number r = ph) tbl = []"
    by (auto simp: filter_empty_conv)
  have found: "select_farmer_by_phone (f_phone_number row) tbl' = Some row"
    by (simp add: select_farmer_by_phone_def tbl' phone none)
  have others: "select_farmer_by_phone q tbl' = select_farmer_by_phone q tbl"
    if "q \<noteq> f_phone_number row" for q
    using that by (simp add: select_farmer_by_phone_def tbl')
  have given: "fi_phone_number p = Value ph"
    using ph by (cases "fi_phone_number p") simp_all
  show ?thesis
    using found others given i num [OF lat] num [OF lon]
    by (simp add: row)
qed

theorem farmer_insert_lookup_roundtrip_witness:
  "insert_farmer example_located_insert [example_farmer]
     = (Inr example_located_farmer, [example_farmer, example_located_farmer]) \<and>
   select_farmer_by_phone ''254700000003'' [example_farmer, example_located_farmer]
     = Some example_located_farmer \<and>
   select_farmer_by_phone ''254700000001'' [example_farmer, example_located_farmer]
     = Some example_farmer"
proof -
  have ins: "insert_farmer example_located_insert [example_farmer]
     = (Inr example_located_farmer, [example_farmer, example_located_farmer])"
    by (simp add: insert_farmer_def example_located_insert_def example_located_farmer_def
        example_farmer_def no_farmer_columns_def gen_random_uuid_def round_decimals_def Let_def)
  have ph: "f_phone_number example_located_farmer = ''254700000003''"
    by (simp add: example_located_farmer_def)
  have old: "select_farmer_by_phone ''254700000001'' [example_farmer] = Some example_farmer"
    by (simp add: select_farmer_by_phone_def example_farmer_def)
  note rt = farmer_insert_lookup_roundtrip [OF ins, unfolded ph]
  from rt have found: "select_farmer_by_phone ''254700000003''
      [example_farmer, example_located_farmer] = Some example_located_farmer"
    by (rule conjunct1)
  from rt have "\<forall>q. q \<noteq> ''254700000003'' \<longrightarrow>
      select_farmer_by_phone q [example_farmer, example_located_farmer]
        = select_farmer_by_phone q [example_farmer]"
    by (rule conjunct2 [THEN conjunct1])
  hence "select_farmer_by_phone ''254700000001'' [example_farmer, example_located_farmer]
        = select_farmer_by_phone ''254700000001'' [example_farmer]"
    by simp
  with ins found old show ?thesis by (simp only: simp_thms)
qed

text \<open>
  C7 as stated fails: a farmer inserted with the latitude 1.23456789 is looked up with
  the latitude 1.234568, the value the \<open>numeric(9,6)\<close> column keeps.
\<close>

theorem coordinates_do_not_round_trip:
  "fi_latitude example_located_insert = Value 1.23456789 \<and>
   fst (insert_farmer example_located_insert [example_farmer]) = Inr example_located_farmer \<and>
   select_farmer_by_phone ''254700000003''
       (snd (insert_farmer example_located_insert [example_farmer]))
     = Some example_located_farmer \<and>
   f_latitude example_located_farmer = Some 1.234568 \<and>
   (1.234568 :: real) \<noteq> 1.23456789"
  by (simp add: insert_farmer_def select_farmer_by_phone_def example_located_insert_def
      example_located_farmer_def example_farmer_def no_farmer_columns_def gen_random_uuid_def
      round_decimals_def Let_def)

subsection \<open>Credential store\<close>

lemma save_step_shape:
  assumes "stored_credentials tbl = (case acc of None \<Rightarrow> [] | Some c \<Rightarrow> [(''main'', c)])"
  shows "stored_credentials (save_step (now, req) tbl) =
         (case latest acc req of None \<Rightarrow> [] | Some c \<Rightarrow> [(''main'', c)])"
proof (cases "submitted_credentials req")
  case None
  then have "save_step (now, req) tbl = tbl"
    by (auto simp: save_step_def save_api_credentials_def save_try_def submitted_credentials_def
        split: if_splits sum.splits json.splits option.splits)
  with None assms show ?thesis by (simp add: latest_def)
next
  case (Some c)
  then obtain kvs where m: "req_method req \<noteq> ''OPTIONS''" and j: "req_json req = Inr (JObject kvs)"
    and k: "map_of kvs ''credentials'' = Some c" and t: "truthy c"
    by (auto simp: submitted_credentials_def split: if_splits sum.splits json.splits option.splits)
  from t have nn: "c \<noteq> JNull" by auto
  show ?thesis
  proof (cases acc)
    case None
    with assms have "tbl = []" by (simp add: stored_credentials_def)
    then show ?thesis using Some m j k t nn
      by (simp add: latest_def save_step_def save_api_credentials_def save_try_def
          insert_api_credentials_def stored_credentials_def)
  next
    case (Some c0)
    with assms obtain r where tbl: "tbl = [r]" and r: "ac_id r = ''main''"
      by (auto simp: stored_credentials_def)
    show ?thesis using \<open>submitted_credentials req = Some c\<close> m j k t nn tbl r
      by (simp add: latest_def save_step_def save_api_credentials_def save_try_def
          update_api_credentials_def stored_credentials_def)
  qed
qed

lemma fold_save_step_shape:
  assumes "stored_credentials tbl = (case acc of None \<Rightarrow> [] | Some c \<Rightarrow> [(''main'', c)])"
  shows "stored_credentials (fold save_step nrs tbl) =
         (case foldl latest acc (map snd nrs) of None \<Rightarrow> [] | Some c \<Rightarrow> [(''main'', c)])"
  using assms
proof (induction nrs arbitrary: tbl acc)
  case Nil
  then show ?case by simp
next
  case (Cons nr nrs)
  obtain now req where nr: "nr = (now, req)" by (cases nr)
  from save_step_shape [OF Cons.prems, of now req]
  show ?case using Cons.IH [of "save_step (now, req) tbl" "latest acc req"] by (simp add: nr)
qed

text \<open>
  C8. After any sequence of save requests the table \<open>api_credentials\<close> is empty when no
  request submitted credentials, and otherwise is the single row \<open>main\<close> holding the
  credentials submitted last; so it never has more than one row.
\<close>

theorem credential_store_single_row:
  "stored_credentials (api_credentials_after nrs) =
     (case last_submitted (map snd nrs) of None \<Rightarrow> [] | Some c \<Rightarrow> [(''main'', c)]) \<and>
   length (api_credentials_after nrs) \<le> 1"
proof -
  have shape: "stored_credentials (api_credentials_after nrs) =
     (case last_submitted (map snd nrs) of None \<Rightarrow> [] | Some c \<Rightarrow> [(''main'', c)])"
    unfolding api_credentials_after_def last_submitted_def
    by (rule fold_save_step_shape) (simp add: stored_credentials_def)
  have "length (api_credentials_after nrs) = length (stored_credentials (api_credentials_after nrs))"
    by (simp add: stored_credentials_def)
  also have "\<dots> \<le> 1" unfolding shape by (simp split: option.splits)
  finally show ?thesis using shape by simp
qed

subsection \<open>WhatsApp webhook\<close>

text \<open>
  C9. When the sender of an inbound message matches no farmer, the handler appends a
  farmer row with the sender's phone number, and the call it logs for the same message
  has a NULL \<open>farmer_id\<close>: the log reads the farmer found before the insert.
\<close>

theorem unknown_sender_logged_without_farmer:
  assumes "m_from message \<notin> set (map f_phone_number (farmers db))"
  shows "\<exists>row call.
           farmers (snd (handleIncomingMessage responseMessage message contacts db))
             = farmers db @ [row] \<and>
           f_phone_number row = m_from message \<and>
           ivr_calls (snd (handleIncomingMessage responseMessage message contacts db))
             = ivr_calls db @ [call] \<and>
           c_farmer_id call = None \<and>
           c_call_status call = Some ''whatsapp_received''"
proof -
  from assms have "filter (\<lambda>r. f_phone_number r = m_from message) (farmers db) = []"
    by (force simp: filter_empty_conv)
  then have none: "select_farmer_by_phone (m_from message) (farmers db) = None"
    by (simp add: select_farmer_by_phone_def)
  show ?thesis
    using assms gen_random_uuid_fresh [of "map f_id (farmers db)"]
      gen_random_uuid_fresh [of "map c_id (ivr_calls db)"]
    by (simp add: handleIncomingMessage_def none Let_def insert_farmer_def insert_ivr_call_def
        no_farmer_columns_def no_call_columns_def call_types_def)
qed

theorem unknown_sender_logged_without_farmer_witness:
  "m_from example_message \<notin> set (map f_phone_number (farmers example_database)) \<and>
   (\<exists>row call.
      farmers (snd (handleIncomingMessage (\<lambda>r. ''Menu'') example_message [] example_database))
        = [example_farmer, row] \<and>
      f_phone_number row = ''254700000002'' \<and>
      ivr_calls (snd (handleIncomingMessage (\<lambda>r. ''Menu'') example_message [] example_database))
        = [call] \<and>
      c_farmer_id call = None)"
proof -
  have h: "m_from example_message \<notin> set (map f_phone_number (farmers example_database))"
    by (simp add: example_message_def example_database_def example_farmer_def)
  from unknown_sender_logged_without_farmer [OF h, of "\<lambda>r. ''Menu''" "[]"] h
  show ?thesis by (auto simp: example_database_def example_message_def)
qed

subsection \<open>Carbon-credit-integration: the GET branch\<close>

lemma creditRates_scope:
  "read_identifier post_block_scope ''creditRates'' (creditRates fl) = Inr (creditRates fl)"
  "read_identifier get_block_scope ''creditRates'' (creditRates fl)
     = Inl (ReferenceError ''creditRates is not defined'')"
  by (simp_all add: read_identifier_def post_block_scope_def get_block_scope_def
      handler_scope_def)

text \<open>
  C3. Every GET request that carries a \<open>farmer_id\<close> is answered by the 500 response
  of the \<open>catch\<close>, with the error logged and the database untouched; when the
  parameter is the text of a uuid, the error is the ReferenceError for \<open>creditRates\<close>,
  thrown while the body of the 200 response is built.
\<close>

theorem credit_get_never_succeeds:
  assumes "cr_method req = ''GET''" and "cr_farmer_id req = Some fid"
  shows "\<exists>m. credit_serve fl env req db =
           (Some \<lparr>status = 500, body = JsonBody (JObject [(''error'', JString m)])\<rparr>,
            [(''Error in carbon-credit-integration:'', m)], db) \<and>
           (fid \<noteq> [] \<and> uuid_of_text fid \<noteq> None \<longrightarrow> m = ''creditRates is not defined'')"
  using assms
  by (auto simp: credit_serve_def credit_try_def credit_get_def read_identifier_def
      get_block_scope_def handler_scope_def Let_def split: option.splits)

theorem credit_get_never_succeeds_witness:
  "cr_method example_get = ''GET'' \<and> cr_farmer_id example_get = Some ''1'' \<and>
   credit_serve Num example_env example_get example_database =
     (Some \<lparr>status = 500,
            body = JsonBody (JObject [(''error'', JString ''creditRates is not defined'')])\<rparr>,
      [(''Error in carbon-credit-integration:'', ''creditRates is not defined'')],
      example_database)"
proof -
  have m: "cr_method example_get = ''GET''" and f: "cr_farmer_id example_get = Some ''1''"
    by (simp_all add: example_get_def)
  have u: "uuid_of_text ''1'' \<noteq> None"
    by (simp add: uuid_of_text_def digit_value_def)
  from credit_get_never_succeeds [OF m f, of Num example_env example_database] u m f
  show ?thesis by auto
qed

subsection \<open>Caught exceptions\<close>




subsection \<open>Sentinel-hub-integration: fetch-images\<close>

lemma map_of_set_property:
  "map_of (set_property k v obj) l =
     (if l = k \<and> k \<noteq> ''__proto__'' then Some v else map_of obj l)"
  by (simp add: set_property_def update_conv')

lemma map_of_fold_set_property:
  "map_of (fold (\<lambda>layerId results. set_property layerId (f layerId) results) layers acc) l =
     (if l \<in> set layers \<and> l \<noteq> ''__proto__'' then Some (f l) else map_of acc l)"
  by (induction layers arbitrary: acc) (auto simp: map_of_set_property)

lemma generateMockImages_entry:
  assumes "l \<in> set layers" and "l \<noteq> ''__proto__''"
  shows "map_of (generateMockImages key lat lon d layers) l =
     Some (if key = [] then ImageError ''Google Maps API key not configured''
           else MapsUrl (lat, lon) key (if l \<noteq> ''rgb'' then Some (getLayerMarkerColor l) else None))"
  using assms by (simp add: generateMockImages_def map_of_fold_set_property)

text \<open>
  C10, as the handler has it. When a fetch-images request carries Sentinel Hub
  credentials and the fetch throws, the answer is a 200 with \<open>success: true\<close>, the
  result of \<open>generateMockImages\<close> and the source \<open>sentinel-hub\<close>: for every requested
  layer a Google Maps URL when the request carries a Google Maps API key, and the error
  entry \<open>Google Maps API key not configured\<close> when it carries none.
\<close>

theorem failed_fetch_substitutes_mock:
  assumes "sr_method req = ''POST''" and "sr_json req = Inr b"
    and "sb_action b = Some ''fetch-images''"
    and "sb_clientId b \<noteq> []" and "sb_clientSecret b \<noteq> []"
    and "sb_farmerId b = Some farmer" and "farmer \<noteq> []"
    and "sb_latitude b = Some lat" and "lat \<noteq> 0"
    and "sb_longitude b = Some lon" and "lon \<noteq> 0"
    and "sb_imageDate b = Some d" and "d \<noteq> []"
    and "layers = (case sb_layers b of Some ls \<Rightarrow> ls | None \<Rightarrow> default_layers)"
    and "fetchSatelliteImages (sb_clientId b) (sb_clientSecret b) v lat lon d layers = Inl e"
  shows "fst (sentinel_serve env v req) =
           \<lparr>s_status = 200,
            s_body = Some (Images True
              (generateMockImages (sb_googleMapsApiKey b) lat lon d layers) ''sentinel-hub'')\<rparr> \<and>
         (\<forall>l \<in> set layers. l \<noteq> ''__proto__'' \<longrightarrow>
            map_of (generateMockImages (sb_googleMapsApiKey b) lat lon d layers) l =
              Some (if sb_googleMapsApiKey b = []
                    then ImageError ''Google Maps API key not configured''
                    else MapsUrl (lat, lon) (sb_googleMapsApiKey b)
                           (if l \<noteq> ''rgb'' then Some (getLayerMarkerColor l) else None)))"
proof -
  have "fst (sentinel_serve env v req) =
           \<lparr>s_status = 200,
            s_body = Some (Images True
              (generateMockImages (sb_googleMapsApiKey b) lat lon d layers) ''sentinel-hub'')\<rparr>"
    using assms
    by (simp add: sentinel_serve_def sentinel_try_def fetch_images_def Let_def)
  then show ?thesis by (simp add: generateMockImages_entry)
qed

lemma example_fetch_throws:
  "fetchSatelliteImages ''client-id'' ''client-secret'' example_vendor_down 1 36.8
      ''2024-06-15'' [''rgb'', ''ndvi'']
     = Inl (Error ''Failed to authenticate with Sentinel Hub'')"
  by (simp add: fetchSatelliteImages_def getAccessToken_def example_vendor_down_def)

theorem failed_fetch_substitutes_mock_witness:
  "fetchSatelliteImages ''client-id'' ''client-secret'' example_vendor_down 1 36.8
      ''2024-06-15'' [''rgb'', ''ndvi'']
     = Inl (Error ''Failed to authenticate with Sentinel Hub'') \<and>
   fst (sentinel_serve example_env example_vendor_down
          \<lparr>sr_method = ''POST'', sr_json = Inr (example_fetch_images ''maps-key'')\<rparr>) =
     \<lparr>s_status = 200,
      s_body = Some (Images True
        [(''rgb'', MapsUrl (1, 36.8) ''maps-key'' None),
         (''ndvi'', MapsUrl (1, 36.8) ''maps-key'' (Some (MarkerColor ''green'')))] ''sentinel-hub'')\<rparr>"
proof -
  let ?b = "example_fetch_images ''maps-key''"
  let ?req = "\<lparr>sr_method = ''POST'', sr_json = Inr ?b\<rparr>"
  have mock: "generateMockImages ''maps-key'' 1 36.8 ''2024-06-15'' [''rgb'', ''ndvi''] =
     [(''rgb'', MapsUrl (1, 36.8) ''maps-key'' None),
      (''ndvi'', MapsUrl (1, 36.8) ''maps-key'' (Some (MarkerColor ''green'')))]"
    by (simp add: generateMockImages_def set_property_def getLayerMarkerColor_def)
  have key: "sb_googleMapsApiKey ?b = ''maps-key''" by (simp add: example_fetch_images_def)
  have throws: "fetchSatelliteImages (sb_clientId ?b) (sb_clientSecret ?b) example_vendor_down
      1 36.8 ''2024-06-15'' [''rgb'', ''ndvi''] = Inl (Error ''Failed to authenticate with Sentinel Hub'')"
    using example_fetch_throws by (simp add: example_fetch_images_def)
  have "fst (sentinel_serve example_env example_vendor_down ?req) =
           \<lparr>s_status = 200,
            s_body = Some (Images True
              (generateMockImages (sb_googleMapsApiKey ?b) 1 36.8 ''2024-06-15'' [''rgb'', ''ndvi''])
              ''sentinel-hub'')\<rparr>"
    by (rule failed_fetch_substitutes_mock [where req = ?req and b = ?b and farmer = "''1''"
          and e = "Error ''Failed to authenticate with Sentinel Hub''", THEN conjunct1])
       (simp_all add: example_fetch_images_def throws [unfolded example_fetch_images_def, simplified])
  then show ?thesis using example_fetch_throws by (simp only: key mock simp_thms)
qed

text \<open>
  C10 as stated fails: without a Google Maps API key in the request, the layers of the
  answer are error entries, not Google Maps URLs.
\<close>

theorem failed_fetch_without_maps_key:
  "fetchSatelliteImages ''client-id'' ''client-secret'' example_vendor_down 1 36.8
      ''2024-06-15'' [''rgb'', ''ndvi'']
     = Inl (Error ''Failed to authenticate with Sentinel Hub'') \<and>
   fst (sentinel_serve example_env example_vendor_down
          \<lparr>sr_method = ''POST'', sr_json = Inr (example_fetch_images [])\<rparr>) =
     \<lparr>s_status = 200,
      s_body = Some (Images True
        [(''rgb'', ImageError ''Google Maps API key not configured''),
         (''ndvi'', ImageError ''Google Maps API key not configured'')] ''sentinel-hub'')\<rparr>"
  using example_fetch_throws
  by (simp add: sentinel_serve_def sentinel_try_def fetch_images_def example_fetch_images_def
      generateMockImages_def set_property_def Let_def)

subsection \<open>Satellite insights: the fallbacks\<close>

lemma next_random_range:
  "0 \<le> fst (next_random rt x) \<and> fst (next_random rt x) < 1"
  by (simp add: next_random_def Let_def) linarith

lemma lower_names:
  "toLowerCase ''Tropical'' = ''tropical''"
  "toLowerCase ''Winter'' = ''winter''"
  "toLowerCase ''Summer'' = ''summer''"
  by (simp_all add: toLowerCase_def lower_char_def)

lemma recommendation_names_clock_season:
  assumes "ndvi > 0.6" and "m > 50"
  shows "generateEnhancedRecommendation 0 ndvi m 0 lon None
         \<noteq> generateEnhancedRecommendation 6 ndvi m 0 lon None"
proof -
  have z: "getClimateZone 0 lon = ''Tropical''" by (simp add: getClimateZone_def)
  have w: "getSeason (Some 0) 0 = ''Winter''" and s: "getSeason (Some 6) 0 = ''Summer''"
    by (simp_all add: getSeason_def)
  have f: "fieldCount_of None = 1" by (simp add: fieldCount_of_def)
  have one: "\<not> (1::nat) > 1" by simp
  have zz: "(''Tropical'' = ''Tropical'') = True" "(''Tropical'' = ''Arid'') = False" by simp_all
  note defs = generateEnhancedRecommendation_def Let_def z w s f lower_names
  show ?thesis
  proof (cases "ndvi > 0.7 \<and> m > 60")
    case True
    show ?thesis
    proof (cases "m > 70")
      case hi: True
      show ?thesis unfolding defs
        by (simp only: True hi one zz if_True if_False simp_thms append_assoc same_append_eq)
           simp
    next
      case lo: False
      show ?thesis unfolding defs
        by (simp only: True lo one zz if_True if_False simp_thms append_assoc same_append_eq)
           simp
    qed
  next
    case False
    have second: "ndvi > 0.6 \<and> m > 50" using assms by simp
    show ?thesis
    proof (cases "m > 70")
      case hi: True
      show ?thesis unfolding defs
        by (simp only: False second hi one zz if_True if_False simp_thms append_assoc same_append_eq)
           simp
    next
      case lo: False
      show ?thesis unfolding defs
        by (simp only: False second lo one zz if_True if_False simp_thms append_assoc same_append_eq)
           simp
    qed
  qed
qed

lemma mock_recommendation_at_equator:
  "\<exists>ndvi m. ndvi > 0.6 \<and> m > 50 \<and>
     (\<forall>c. si_recommendation (generateEnhancedMockData real_runtime c ''farmer-1'' 0 lon ''2024-06-15'' None)
          = generateEnhancedRecommendation c ndvi m 0 lon None)"
proof -
  define x0 where "x0 = seededRandom real_runtime (hashCode (''farmer-1'' @ ''2024-06-15''))"
  define d1 where "d1 = next_random real_runtime x0"
  define d2 where "d2 = next_random real_runtime (snd d1)"
  define ndvi :: real where "ndvi = max 0.1 (min 0.9 (0.72 + (fst d1 - 0.5) * 0.15))"
  define m :: real where "m = max 15 (min 85 (ndvi * 55 + 25 + (fst d2 - 0.5) * 20))"
  have r1: "0 \<le> fst d1" "fst d1 < 1" using next_random_range [of real_runtime x0]
    by (simp_all add: d1_def)
  have r2: "0 \<le> fst d2" "fst d2 < 1" using next_random_range [of real_runtime "snd d1"]
    by (simp_all add: d2_def)
  have "129 / 200 \<le> 0.72 + (fst d1 - 0.5) * 0.15" using r1 by (simp add: field_simps)
  then have "129 / 200 \<le> min 0.9 (0.72 + (fst d1 - 0.5) * 0.15)" by simp
  then have n: "ndvi \<ge> 129 / 200" unfolding ndvi_def by linarith
  then have n6: "ndvi > 0.6" by simp
  have "ndvi * 55 \<ge> 129 / 200 * 55" using n by simp
  then have "ndvi * 55 + 25 + (fst d2 - 0.5) * 20 > 50" using r2 by (simp add: field_simps)
  then have "min 85 (ndvi * 55 + 25 + (fst d2 - 0.5) * 20) > 50" by simp
  then have m5: "m > 50" unfolding m_def by linarith
  have month: "getMonth real_runtime ''2024-06-15'' = Some 5"
    by (simp add: real_runtime_def utc_getMonth_def digit_value_def days_in_month_def)
  have "si_recommendation (generateEnhancedMockData real_runtime c ''farmer-1'' 0 lon ''2024-06-15'' None)
          = generateEnhancedRecommendation c ndvi m 0 lon None" for c
    unfolding generateEnhancedMockData_def Let_def month
    by (simp add: fieldCount_of_def getSeasonalFactor_def getClimateFactor_def
        ndvi_def m_def d1_def d2_def x0_def)
  with n6 m5 show ?thesis by blast
qed

lemma dashboard_post_status:
  "(s_status (fst (sentinel_serve env v (dashboard_post f lat lon s e))) = 200)
     = (f \<noteq> [] \<and> lat \<noteq> 0 \<and> lon \<noteq> 0 \<and> s \<noteq> [] \<and> e \<noteq> [])"
  by (simp add: sentinel_serve_def sentinel_try_def dashboard_post_def Let_def)

lemma dashboard_falls_back:
  assumes "\<not> (hasCredentials \<and> reachable) \<or> f = [] \<or> lat = 0 \<or> lon = 0 \<or> s = [] \<or> e = []"
  shows "dashboard_getSatelliteInsights rt clock env v hasCredentials reachable f lat lon s e fb
           = generateEnhancedMockData rt clock f lat lon e fb"
proof (cases "hasCredentials \<and> reachable")
  case False
  then show ?thesis
    unfolding dashboard_getSatelliteInsights_def Let_def by (simp only: if_False)
next
  case True
  with assms have "s_status (fst (sentinel_serve env v (dashboard_post f lat lon s e))) \<noteq> 200"
    by (auto simp: dashboard_post_status)
  then show ?thesis
    unfolding dashboard_getSatelliteInsights_def Let_def by (simp only: if_False if_cancel)
qed

lemma no_credentials_no_token:
  "getAccessToken [] [] v = Inl (Error ''Sentinel Hub credentials not provided'')"
  by (simp add: getAccessToken_def)

lemma dashboard_relays:
  assumes "hasCredentials" and "reachable"
    and "f \<noteq> []" and "lat \<noteq> 0" and "lon \<noteq> 0" and "s \<noteq> []" and "e \<noteq> []"
  shows "dashboard_getSatelliteInsights rt clock env v hasCredentials reachable f lat lon s e fb
           = \<lparr>si_farmerId = f, si_imageDate = e,
              si_ndviScore = 0.3 + random env 0 * 0.5,
              si_soilMoisture = 20 + random env 1 * 60,
              si_vegetationIndex = (0.3 + random env 2 * 0.5) * 100,
              si_recommendation = generateRecommendation (0.3 + random env 3 * 0.5),
              si_cloudCoverage = random env 4 * 30,
              si_apiResponse = True, si_dataSource = ''Sentinel Hub API''\<rparr>"
proof -
  have answer: "fst (sentinel_serve env v (dashboard_post f lat lon s e))
      = \<lparr>s_status = 200, s_body = Some (Insight (getSatelliteInsights env [] [] v f lat lon s e))\<rparr>"
    using assms
    by (simp add: sentinel_serve_def sentinel_try_def dashboard_post_def Let_def)
  have insight: "getSatelliteInsights env [] [] v f lat lon s e
      = \<lparr>si_farmerId = f, si_imageDate = e,
         si_ndviScore = 0.3 + random env 0 * 0.5,
         si_soilMoisture = 20 + random env 1 * 60,
         si_vegetationIndex = (0.3 + random env 2 * 0.5) * 100,
         si_recommendation = generateRecommendation (0.3 + random env 3 * 0.5),
         si_cloudCoverage = random env 4 * 30,
         si_apiResponse = False, si_dataSource = ''Mock Data (API Error)''\<rparr>"
    by (simp add: getSatelliteInsights_def no_credentials_no_token)
  show ?thesis
    unfolding dashboard_getSatelliteInsights_def Let_def answer insight
    using assms by simp
qed

lemma handler_values_drawn:
  "si_ndviScore (getSatelliteInsights env cid cs v f lat lon s e) = 0.3 + random env 0 * 0.5"
  "si_soilMoisture (getSatelliteInsights env cid cs v f lat lon s e) = 20 + random env 1 * 60"
  "si_vegetationIndex (getSatelliteInsights env cid cs v f lat lon s e)
     = (0.3 + random env 2 * 0.5) * 100"
  by (simp_all add: getSatelliteInsights_def Let_def split: sum.splits)

lemma mock_values_seeded:
  assumes "hashCode (f @ e) = hashCode (f' @ e')" and "getMonth rt e = getMonth rt e'"
    and "fieldCount_of fb = fieldCount_of fb'"
  shows "si_ndviScore (generateEnhancedMockData rt clock f lat lon e fb)
           = si_ndviScore (generateEnhancedMockData rt clock' f' lat lon' e' fb')"
    and "si_soilMoisture (generateEnhancedMockData rt clock f lat lon e fb)
           = si_soilMoisture (generateEnhancedMockData rt clock' f' lat lon' e' fb')"
    and "si_vegetationIndex (generateEnhancedMockData rt clock f lat lon e fb)
           = si_vegetationIndex (generateEnhancedMockData rt clock' f' lat lon' e' fb')"
  by (simp_all only: generateEnhancedMockData_def Let_def satellite_insight.select_convs
      getClimateFactor_def assms)

lemma mock_ndvi_first_draw:
  "si_ndviScore (generateEnhancedMockData rt clock f lat lon e fb)
     = round_to 1000 (max 0.1 (min 0.9
         (max 0.3 (1 - \<bar>lat\<bar> / 90) * getSeasonalFactor (getMonth rt e) lat
            * getClimateFactor lat lon * (if fieldCount_of fb > 1 then 1.1 else 1.0)
          + (if fieldCount_of fb > 1 then 0.05 else 0)
          + (fst (next_random rt (seededRandom rt (hashCode (f @ e)))) - 0.5) * 0.15)))"
  by (simp only: generateEnhancedMockData_def Let_def satellite_insight.select_convs)

lemma hashCode_collision: "hashCode (''Aa'' @ x) = hashCode (''BB'' @ x)"
  by (simp add: hashCode_def)

text \<open>
  C2, as the dashboard has it. The integration function answers the dashboard's request
  with a 200 exactly when the farmer id and the two dates are not empty and the
  latitude and longitude are not 0. When no credentials are configured, or the function
  is out of reach, or it does not answer with a 200, the dashboard returns
  \<open>generateEnhancedMockData\<close>; otherwise it returns the insight of the function, whose
  NDVI, soil moisture and vegetation index are computed from three draws of
  \<open>Math.random()\<close>, as they are in the handler for every request, whether or not a token
  was had. The NDVI, soil-moisture and vegetation-index values of
  \<open>generateEnhancedMockData\<close> are seeded: the NDVI is the base value of the place and
  the month, moved by the first draw of the generator that
  \<open>hashCode(farmerId + date)\<close> seeds, then clamped and rounded; and on one engine the
  three values depend on the farmer id and the date only through that hash code and the
  month of the date, on the field boundaries only through their number, and neither on
  the longitude nor on the moment of the call. So two runs of the dashboard that both fall back, for the same
  farmer id, date, coordinates and field boundaries, show the same three values,
  whatever the moment of the call, \<open>Math.random()\<close> and the vendor are in each.
\<close>

theorem seeded_fallback_values:
  "((s_status (fst (sentinel_serve env v (dashboard_post f lat lon s e))) = 200)
      = (f \<noteq> [] \<and> lat \<noteq> 0 \<and> lon \<noteq> 0 \<and> s \<noteq> [] \<and> e \<noteq> [])) \<and>
   (\<not> (hasCredentials \<and> reachable)
      \<or> s_status (fst (sentinel_serve env v (dashboard_post f lat lon s e))) \<noteq> 200 \<longrightarrow>
      dashboard_getSatelliteInsights rt clock env v hasCredentials reachable f lat lon s e fb
        = generateEnhancedMockData rt clock f lat lon e fb) \<and>
   (hasCredentials \<and> reachable
      \<and> s_status (fst (sentinel_serve env v (dashboard_post f lat lon s e))) = 200 \<longrightarrow>
      dashboard_getSatelliteInsights rt clock env v hasCredentials reachable f lat lon s e fb
        = \<lparr>si_farmerId = f, si_imageDate = e,
           si_ndviScore = 0.3 + random env 0 * 0.5,
           si_soilMoisture = 20 + random env 1 * 60,
           si_vegetationIndex = (0.3 + random env 2 * 0.5) * 100,
           si_recommendation = generateRecommendation (0.3 + random env 3 * 0.5),
           si_cloudCoverage = random env 4 * 30,
           si_apiResponse = True, si_dataSource = ''Sentinel Hub API''\<rparr>) \<and>
   si_ndviScore (getSatelliteInsights env cid cs v f lat lon s e) = 0.3 + random env 0 * 0.5 \<and>
   si_soilMoisture (getSatelliteInsights env cid cs v f lat lon s e) = 20 + random env 1 * 60 \<and>
   si_vegetationIndex (getSatelliteInsights env cid cs v f lat lon s e)
     = (0.3 + random env 2 * 0.5) * 100 \<and>
   si_ndviScore (generateEnhancedMockData rt clock f lat lon e fb)
     = round_to 1000 (max 0.1 (min 0.9
         (max 0.3 (1 - \<bar>lat\<bar> / 90) * getSeasonalFactor (getMonth rt e) lat
            * getClimateFactor lat lon * (if fieldCount_of fb > 1 then 1.1 else 1.0)
          + (if fieldCount_of fb > 1 then 0.05 else 0)
          + (fst (next_random rt (seededRandom rt (hashCode (f @ e)))) - 0.5) * 0.15))) \<and>
   (hashCode (f @ e) = hashCode (f' @ e') \<and> getMonth rt e = getMonth rt e'
      \<and> fieldCount_of fb = fieldCount_of fb' \<longrightarrow>
      si_ndviScore (generateEnhancedMockData rt clock f lat lon e fb)
        = si_ndviScore (generateEnhancedMockData rt clock' f' lat lon' e' fb') \<and>
      si_soilMoisture (generateEnhancedMockData rt clock f lat lon e fb)
        = si_soilMoisture (generateEnhancedMockData rt clock' f' lat lon' e' fb') \<and>
      si_vegetationIndex (generateEnhancedMockData rt clock f lat lon e fb)
        = si_vegetationIndex (generateEnhancedMockData rt clock' f' lat lon' e' fb')) \<and>
   ((\<not> (hasCredentials \<and> reachable)
       \<or> s_status (fst (sentinel_serve env v (dashboard_post f lat lon s e))) \<noteq> 200) \<and>
    (\<not> (hasCredentials' \<and> reachable')
       \<or> s_status (fst (sentinel_serve env' v' (dashboard_post f lat lon s' e))) \<noteq> 200) \<longrightarrow>
      si_ndviScore (dashboard_getSatelliteInsights rt clock env v hasCredentials reachable
          f lat lon s e fb)
        = si_ndviScore (dashboard_getSatelliteInsights rt clock' env' v' hasCredentials' reachable'
            f lat lon s' e fb) \<and>
      si_soilMoisture (dashboard_getSatelliteInsights rt clock env v hasCredentials reachable
          f lat lon s e fb)
        = si_soilMoisture (dashboard_getSatelliteInsights rt clock' env' v' hasCredentials' reachable'
            f lat lon s' e fb) \<and>
      si_vegetationIndex (dashboard_getSatelliteInsights rt clock env v hasCredentials reachable
          f lat lon s e fb)
        = si_vegetationIndex (dashboard_getSatelliteInsights rt clock' env' v' hasCredentials' reachable'
            f lat lon s' e fb))"
proof -
  have status: "(s_status (fst (sentinel_serve env v (dashboard_post f lat lon s e))) = 200)
      = (f \<noteq> [] \<and> lat \<noteq> 0 \<and> lon \<noteq> 0 \<and> s \<noteq> [] \<and> e \<noteq> [])"
    by (rule dashboard_post_status)
  have falls: "dashboard_getSatelliteInsights rt c en vn hc r f lat lon st e fb
        = generateEnhancedMockData rt c f lat lon e fb"
    if "\<not> (hc \<and> r) \<or> s_status (fst (sentinel_serve en vn (dashboard_post f lat lon st e))) \<noteq> 200"
    for c en vn hc r st
    using that by (intro dashboard_falls_back) (auto simp: dashboard_post_status)
  have relay: "dashboard_getSatelliteInsights rt clock env v hasCredentials reachable f lat lon s e fb
        = \<lparr>si_farmerId = f, si_imageDate = e,
           si_ndviScore = 0.3 + random env 0 * 0.5,
           si_soilMoisture = 20 + random env 1 * 60,
           si_vegetationIndex = (0.3 + random env 2 * 0.5) * 100,
           si_recommendation = generateRecommendation (0.3 + random env 3 * 0.5),
           si_cloudCoverage = random env 4 * 30,
           si_apiResponse = True, si_dataSource = ''Sentinel Hub API''\<rparr>"
    if "hasCredentials \<and> reachable
      \<and> s_status (fst (sentinel_serve env v (dashboard_post f lat lon s e))) = 200"
    using that by (intro dashboard_relays) (simp_all add: dashboard_post_status)
  have seeded: "si_ndviScore (generateEnhancedMockData rt clock f lat lon e fb)
        = si_ndviScore (generateEnhancedMockData rt clock' f' lat lon' e' fb') \<and>
      si_soilMoisture (generateEnhancedMockData rt clock f lat lon e fb)
        = si_soilMoisture (generateEnhancedMockData rt clock' f' lat lon' e' fb') \<and>
      si_vegetationIndex (generateEnhancedMockData rt clock f lat lon e fb)
        = si_vegetationIndex (generateEnhancedMockData rt clock' f' lat lon' e' fb')"
    if "hashCode (f @ e) = hashCode (f' @ e') \<and> getMonth rt e = getMonth rt e'
      \<and> fieldCount_of fb = fieldCount_of fb'"
    using that mock_values_seeded [of f e f' e' rt fb fb' clock lat lon clock' lon'] by blast
  have runs: "si_ndviScore (dashboard_getSatelliteInsights rt clock env v hasCredentials reachable
          f lat lon s e fb)
        = si_ndviScore (dashboard_getSatelliteInsights rt clock' env' v' hasCredentials' reachable'
            f lat lon s' e fb) \<and>
      si_soilMoisture (dashboard_getSatelliteInsights rt clock env v hasCredentials reachable
          f lat lon s e fb)
        = si_soilMoisture (dashboard_getSatelliteInsights rt clock' env' v' hasCredentials' reachable'
            f lat lon s' e fb) \<and>
      si_vegetationIndex (dashboard_getSatelliteInsights rt clock env v hasCredentials reachable
          f lat lon s e fb)
        = si_vegetationIndex (dashboard_getSatelliteInsights rt clock' env' v' hasCredentials' reachable'
            f lat lon s' e fb)"
    if "(\<not> (hasCredentials \<and> reachable)
       \<or> s_status (fst (sentinel_serve env v (dashboard_post f lat lon s e))) \<noteq> 200) \<and>
    (\<not> (hasCredentials' \<and> reachable')
       \<or> s_status (fst (sentinel_serve env' v' (dashboard_post f lat lon s' e))) \<noteq> 200)"
  proof -
    from that have one: "dashboard_getSatelliteInsights rt clock env v hasCredentials reachable
          f lat lon s e fb = generateEnhancedMockData rt clock f lat lon e fb"
      by (intro falls) blast
    from that have two: "dashboard_getSatelliteInsights rt clock' env' v' hasCredentials' reachable'
          f lat lon s' e fb = generateEnhancedMockData rt clock' f lat lon e fb"
      by (intro falls) blast
    show ?thesis
      unfolding one two
      using mock_values_seeded [of f e f e rt fb fb clock lat lon clock' lon] by blast
  qed
  from status falls [of hasCredentials reachable env v s clock] relay
    handler_values_drawn [of env cid cs v f lat lon s e]
    mock_ndvi_first_draw [of rt clock f lat lon e fb] seeded runs
  show ?thesis by (intro conjI impI) blast+
qed

text \<open>
  The three cases at work: a request with the latitude 0 is answered with a 400, and the
  dashboard falls back; with the latitude 1 it is answered, and the NDVI shown is the
  first draw of \<open>Math.random()\<close>; the farmers \<open>Aa\<close> and \<open>BB\<close>, whose hash codes
  are equal, get the same NDVI from the generator; and a run in January without
  credentials shows the same NDVI as a run in July that was answered with a 400.
\<close>

theorem seeded_fallback_values_witness:
  "s_status (fst (sentinel_serve example_env example_vendor_down
      (dashboard_post ''farmer-1'' 0 36.8 ''2024-06-01'' ''2024-06-15''))) \<noteq> 200 \<and>
   dashboard_getSatelliteInsights real_runtime 0 example_env example_vendor_down True True
      ''farmer-1'' 0 36.8 ''2024-06-01'' ''2024-06-15'' None
     = generateEnhancedMockData real_runtime 0 ''farmer-1'' 0 36.8 ''2024-06-15'' None \<and>
   s_status (fst (sentinel_serve example_env example_vendor_down
      (dashboard_post ''farmer-1'' 1 36.8 ''2024-06-01'' ''2024-06-15''))) = 200 \<and>
   si_ndviScore (dashboard_getSatelliteInsights real_runtime 0 example_env example_vendor_down
      True True ''farmer-1'' 1 36.8 ''2024-06-01'' ''2024-06-15'' None) = 0.3 \<and>
   hashCode (''Aa'' @ ''2024-06-15'') = hashCode (''BB'' @ ''2024-06-15'') \<and>
   si_ndviScore (generateEnhancedMockData real_runtime 0 ''Aa'' 1 36.8 ''2024-06-15'' None)
     = si_ndviScore (generateEnhancedMockData real_runtime 6 ''BB'' 1 36.8 ''2024-06-15'' None) \<and>
   si_ndviScore (dashboard_getSatelliteInsights real_runtime 0 example_env example_vendor_down
      False True ''farmer-1'' 0 36.8 ''2024-06-01'' ''2024-06-15'' None)
     = si_ndviScore (dashboard_getSatelliteInsights real_runtime 6
         (example_env\<lparr>random := \<lambda>k. 1 / 2\<rparr>) example_vendor_down
         True True ''farmer-1'' 0 36.8 ''2024-05-01'' ''2024-06-15'' None)"
proof -
  have no: "s_status (fst (sentinel_serve example_env example_vendor_down
      (dashboard_post ''farmer-1'' 0 36.8 ''2024-06-01'' ''2024-06-15''))) \<noteq> 200"
    by (simp add: sentinel_serve_def sentinel_try_def dashboard_post_def)
  have yes: "s_status (fst (sentinel_serve example_env example_vendor_down
      (dashboard_post ''farmer-1'' 1 36.8 ''2024-06-01'' ''2024-06-15''))) = 200"
    by (simp add: sentinel_serve_def sentinel_try_def dashboard_post_def)
  have hash: "hashCode (''Aa'' @ ''2024-06-15'') = hashCode (''BB'' @ ''2024-06-15'')"
    by (rule hashCode_collision)
  have draw: "random example_env 0 = 0" by (simp add: example_env_def)
  have falls: "dashboard_getSatelliteInsights real_runtime 0 example_env example_vendor_down True True
      ''farmer-1'' 0 36.8 ''2024-06-01'' ''2024-06-15'' None
     = generateEnhancedMockData real_runtime 0 ''farmer-1'' 0 36.8 ''2024-06-15'' None"
    using no
    by (intro seeded_fallback_values [where hasCredentials = True and reachable = True
          and env = example_env and v = example_vendor_down and s = "''2024-06-01''",
          THEN conjunct2, THEN conjunct1, THEN mp]) blast
  have "dashboard_getSatelliteInsights real_runtime 0 example_env example_vendor_down True True
      ''farmer-1'' 1 36.8 ''2024-06-01'' ''2024-06-15'' None
     = \<lparr>si_farmerId = ''farmer-1'', si_imageDate = ''2024-06-15'',
        si_ndviScore = 0.3 + random example_env 0 * 0.5,
        si_soilMoisture = 20 + random example_env 1 * 60,
        si_vegetationIndex = (0.3 + random example_env 2 * 0.5) * 100,
        si_recommendation = generateRecommendation (0.3 + random example_env 3 * 0.5),
        si_cloudCoverage = random example_env 4 * 30,
        si_apiResponse = True, si_dataSource = ''Sentinel Hub API''\<rparr>"
    using yes
    by (intro seeded_fallback_values [where hasCredentials = True and reachable = True
          and env = example_env and v = example_vendor_down and s = "''2024-06-01''",
          THEN conjunct2, THEN conjunct2, THEN conjunct1, THEN mp]) blast
  then have relay: "si_ndviScore (dashboard_getSatelliteInsights real_runtime 0 example_env
      example_vendor_down True True ''farmer-1'' 1 36.8 ''2024-06-01'' ''2024-06-15'' None) = 0.3"
    by (simp add: draw)
  have seeded: "si_ndviScore (generateEnhancedMockData real_runtime 0 ''Aa'' 1 36.8 ''2024-06-15'' None)
     = si_ndviScore (generateEnhancedMockData real_runtime 6 ''BB'' 1 36.8 ''2024-06-15'' None)"
    using hash
    by (intro seeded_fallback_values [where f = "''Aa''" and f' = "''BB''"
          and e = "''2024-06-15''" and e' = "''2024-06-15''" and fb = None and fb' = None
          and rt = real_runtime and lon = "36.8" and lon' = "36.8",
          THEN conjunct2, THEN conjunct2, THEN conjunct2, THEN conjunct2, THEN conjunct2,
          THEN conjunct2, THEN conjunct2, THEN conjunct1, THEN mp, THEN conjunct1]) blast
  have no': "s_status (fst (sentinel_serve (example_env\<lparr>random := \<lambda>k. 1 / 2\<rparr>)
      example_vendor_down (dashboard_post ''farmer-1'' 0 36.8 ''2024-05-01'' ''2024-06-15''))) \<noteq> 200"
    by (simp add: sentinel_serve_def sentinel_try_def dashboard_post_def)
  have runs: "si_ndviScore (dashboard_getSatelliteInsights real_runtime 0 example_env
      example_vendor_down False True ''farmer-1'' 0 36.8 ''2024-06-01'' ''2024-06-15'' None)
     = si_ndviScore (dashboard_getSatelliteInsights real_runtime 6
         (example_env\<lparr>random := \<lambda>k. 1 / 2\<rparr>) example_vendor_down
         True True ''farmer-1'' 0 36.8 ''2024-05-01'' ''2024-06-15'' None)"
    using no'
    by (intro seeded_fallback_values [where hasCredentials = False and reachable = True
          and hasCredentials' = True and reachable' = True and env = example_env
          and env' = "example_env\<lparr>random := \<lambda>k. 1 / 2\<rparr>"
          and v = example_vendor_down and v' = example_vendor_down
          and s = "''2024-06-01''" and s' = "''2024-05-01''",
          THEN conjunct2, THEN conjunct2, THEN conjunct2, THEN conjunct2, THEN conjunct2,
          THEN conjunct2, THEN conjunct2, THEN conjunct2, THEN mp, THEN conjunct1]) blast
  from no falls yes relay hash seeded runs show ?thesis by (simp only: simp_thms)
qed

text \<open>
  C2 as stated fails. With credentials and the vendor out of reach, the handler's
  fallback (\<open>Mock Data (API Error)\<close>) is drawn from \<open>Math.random()\<close>, and so is
  what the dashboard then shows; and the recommendation of the seeded generator names
  the season of the moment of the call, so it differs between January and July.
\<close>

theorem fallback_not_reproducible:
  "si_dataSource (getSatelliteInsights (example_env\<lparr>random := \<lambda>k. 0\<rparr>) ''id'' ''secret''
      example_vendor_down ''farmer-1'' 1 36.8 ''2024-06-01'' ''2024-06-15'')
     = ''Mock Data (API Error)'' \<and>
   si_ndviScore (getSatelliteInsights (example_env\<lparr>random := \<lambda>k. 0\<rparr>) ''id'' ''secret''
      example_vendor_down ''farmer-1'' 1 36.8 ''2024-06-01'' ''2024-06-15'') = 0.3 \<and>
   si_ndviScore (getSatelliteInsights (example_env\<lparr>random := \<lambda>k. 1 / 2\<rparr>) ''id'' ''secret''
      example_vendor_down ''farmer-1'' 1 36.8 ''2024-06-01'' ''2024-06-15'') = 0.55 \<and>
   si_ndviScore (dashboard_getSatelliteInsights real_runtime 5 (example_env\<lparr>random := \<lambda>k. 0\<rparr>)
      example_vendor_down True True ''farmer-1'' 1 36.8 ''2024-06-01'' ''2024-06-15'' None) = 0.3 \<and>
   si_ndviScore (dashboard_getSatelliteInsights real_runtime 5 (example_env\<lparr>random := \<lambda>k. 1 / 2\<rparr>)
      example_vendor_down True True ''farmer-1'' 1 36.8 ''2024-06-01'' ''2024-06-15'' None) = 0.55 \<and>
   si_recommendation (generateEnhancedMockData real_runtime 0 ''farmer-1'' 0 36.8 ''2024-06-15'' None)
     \<noteq> si_recommendation (generateEnhancedMockData real_runtime 6 ''farmer-1'' 0 36.8 ''2024-06-15'' None)"
proof -
  from mock_recommendation_at_equator [of "36.8"] obtain ndvi m where
    b: "ndvi > 0.6" "m > 50" and
    e: "\<And>c. si_recommendation (generateEnhancedMockData real_runtime c ''farmer-1'' 0 36.8 ''2024-06-15'' None)
          = generateEnhancedRecommendation c ndvi m 0 36.8 None"
    by blast
  have clock: "si_recommendation (generateEnhancedMockData real_runtime 0 ''farmer-1'' 0 36.8 ''2024-06-15'' None)
     \<noteq> si_recommendation (generateEnhancedMockData real_runtime 6 ''farmer-1'' 0 36.8 ''2024-06-15'' None)"
    unfolding e using recommendation_names_clock_season [OF b] .
  have edge: "getAccessToken ''id'' ''secret'' example_vendor_down
     = Inl (Error ''Failed to authenticate with Sentinel Hub'')"
    by (simp add: getAccessToken_def example_vendor_down_def)
  have none: "getAccessToken [] [] example_vendor_down
     = Inl (Error ''Sentinel Hub credentials not provided'')"
    by (simp add: getAccessToken_def)
  have dash: "si_ndviScore (dashboard_getSatelliteInsights real_runtime 5 (example_env\<lparr>random := \<lambda>k. r\<rparr>)
      example_vendor_down True True ''farmer-1'' 1 36.8 ''2024-06-01'' ''2024-06-15'' None)
      = 0.3 + r * 0.5" for r
    by (simp add: dashboard_getSatelliteInsights_def dashboard_post_def sentinel_serve_def
        sentinel_try_def getSatelliteInsights_def none Let_def)
  show ?thesis
    using clock dash [of 0] dash [of "1 / 2"]
    by (simp add: getSatelliteInsights_def edge)
qed

end
